theory Spec2Isabelle
  imports Main "HOL-Library.Word" "HOL-Library.Signed_Division" "HOL-Library.Code_Target_Numeral"
begin

section \<open>The PlayReady media system of MediaSystem.cpp\<close>

text \<open>
  A shallow embedding of class \<open>CDMi::PlayReady\<close>. The object is a record of its
  member variables. Every function of the PlayReady SDK, of Nexus, of the HTTP client and
  of libc that the class calls is outside the repository: its results are read from an
  environment, a record of oracles. Each oracle is a function of the history of external
  calls made so far (the current call included), so that the hidden state of the SDK,
  the file system and the network may answer differently at every call. The history is
  kept in the ghost field \<open>calls\<close> of the object.
\<close>

subsection \<open>Result codes\<close>

text \<open>
  \<open>CDMi_RESULT\<close> (cdmi.h): the two values the class returns.
\<close>

datatype CDMi_RESULT = CDMi_SUCCESS | CDMi_S_FALSE

text \<open>
  Modelled from the spec: the header drmresults.h of the PlayReady SDK, which is not part
  of the sources. \<open>DRM_RESULT\<close> is a signed 32-bit code; the class only compares it with
  the named constants below and tests its sign with \<open>DRM_FAILED\<close>. \<open>DRM_SUCCESS\<close> is
  0, \<open>DRM_S_FALSE\<close> stands for every positive (successful, non-zero) code, the
  \<open>DRM_E_\<close> constants are distinct negative codes and \<open>DRM_E_FAIL\<close> stands for every
  other negative code.
\<close>

datatype DRM_RESULT =
    DRM_SUCCESS
  | DRM_S_FALSE
  | DRM_E_NOMORE
  | DRM_E_OUTOFMEMORY
  | DRM_E_SECURETIME_CLOCK_NOT_SET
  | DRM_E_TEE_PROVISIONING_REQUIRED
  | DRM_E_CLK_NOT_SUPPORTED
  | DRM_E_FAIL

fun DRM_FAILED :: "DRM_RESULT \<Rightarrow> bool" where
  "DRM_FAILED DRM_SUCCESS = False"
| "DRM_FAILED DRM_S_FALSE = False"
| "DRM_FAILED _ = True"

subsection \<open>Data of the external interfaces\<close>

type_synonym byte = "8 word"

text \<open>\<open>struct tm\<close> as filled by \<open>gmtime\<close>, and the SDK's \<open>DRMSYSTEMTIME\<close> (16-bit fields).\<close>

record tm =
  tm_year :: int
  tm_mon :: int
  tm_wday :: int
  tm_mday :: int
  tm_hour :: int
  tm_min :: int
  tm_sec :: int

record DRMSYSTEMTIME =
  wYear :: "16 word"
  wMonth :: "16 word"
  wDayOfWeek :: "16 word"
  wDay :: "16 word"
  wHour :: "16 word"
  wMinute :: "16 word"
  wSecond :: "16 word"
  wMilliseconds :: "16 word"

datatype buffer_kind = OpaqueBuffer | RevocationBuffer

text \<open>
  The external calls, with the arguments that the class chooses. Pointers are
  \<open>nat option\<close>, \<open>None\<close> being \<open>nullptr\<close>. The last event is no call: it is
  the one write of the class that can land outside a buffer of its own, the bytes that
  \<open>LoadRevocationList\<close> copies past the end of \<open>revBuf\<close>, with the distance from the
  end at which they land.
\<close>

datatype event =
    Call_CreatePath string
  | Call_Drm_Platform_Initialize
  | Call_Drm_Platform_Uninitialize "nat option"
  | Call_Drm_StoreMgmt_CleanupStore nat
  | Call_Drm_Uninitialize nat
  | Call_new_DRM_APP_CONTEXT
  | Call_Oem_MemAlloc buffer_kind
  | Call_Drm_Initialize nat string
  | Call_Drm_SecureTime_GetValue
  | Call_Drm_SecureTime_GenerateChallenge
  | Call_NEXUS_Memory_Allocate nat
  | Call_GetForwardLinkUrl
  | Call_GetSecureTimeUrl string
  | Call_SecureTimeChallengePost string "byte list"
  | Call_Drm_SecureTime_ProcessResponse "byte list"
  | Call_gettimeofday
  | Call_Drm_AntiRollBackClock_Init DRMSYSTEMTIME
  | Call_Drm_ResizeInMemoryLicenseStore
  | Call_Drm_Revocation_SetBuffer
  | Call_fopen string
  | Call_BKNI_Malloc nat
  | Call_Drm_Revocation_StorePackage "byte list" nat
  | Call_Drm_Content_SetProperty
  | Call_File_Exists string
  | Call_new_MediaKeySession "byte list" "byte list" "nat option" "nat option"
  | Call_Drm_SecureStop_EnumerateSessions "32 word"
  | Call_Drm_SecureStop_GenerateChallenge "byte list"
  | Call_Drm_SecureStop_ProcessResponse "byte list" "byte list"
  | Write_past_revBuf nat "byte list"

text \<open>
  The environment. An oracle is applied to the history that ends with its own call.
  Return codes of Nexus and of the HTTP client are C integers, only ever compared
  with 0. \<open>fopen_rb\<close> answers for the whole use of the stream: \<open>None\<close> when the file
  does not open, otherwise the size that \<open>fseek\<close> and \<open>ftell\<close> report and the bytes that
  the calls of \<open>fread\<close> deliver, which need not be as many.
\<close>

record env =
  Drm_Platform_Initialize :: "event list \<Rightarrow> DRM_RESULT \<times> nat option"
  Drm_StoreMgmt_CleanupStore :: "event list \<Rightarrow> DRM_RESULT"
  new_DRM_APP_CONTEXT :: "event list \<Rightarrow> nat"
  Oem_MemAlloc :: "event list \<Rightarrow> nat option"
  Drm_Initialize :: "event list \<Rightarrow> DRM_RESULT"
  Drm_SecureTime_GetValue :: "event list \<Rightarrow> DRM_RESULT"
  Drm_SecureTime_GenerateChallenge :: "event list \<Rightarrow> DRM_RESULT \<times> byte list"
  NEXUS_Memory_Allocate :: "event list \<Rightarrow> int"
  PRDY_HTTP_Client_GetForwardLinkUrl :: "event list \<Rightarrow> int \<times> 32 word \<times> string"
  PRDY_HTTP_Client_GetSecureTimeUrl :: "event list \<Rightarrow> int \<times> 32 word \<times> string"
  PRDY_HTTP_Client_SecureTimeChallengePost :: "event list \<Rightarrow> 32 word \<times> byte list"
  Drm_SecureTime_ProcessResponse :: "event list \<Rightarrow> DRM_RESULT"
  gettimeofday :: "event list \<Rightarrow> int \<times> int"
  gmtime :: "int \<Rightarrow> tm"
  Drm_AntiRollBackClock_Init :: "event list \<Rightarrow> DRM_RESULT"
  Drm_ResizeInMemoryLicenseStore :: "event list \<Rightarrow> DRM_RESULT"
  DRM_REVOCATION_IsRevocationSupported :: bool
  Drm_Revocation_SetBuffer :: "event list \<Rightarrow> DRM_RESULT"
  fopen_rb :: "event list \<Rightarrow> (nat \<times> byte list) option"
  BKNI_Malloc :: "event list \<Rightarrow> bool"
  Drm_Revocation_StorePackage :: "event list \<Rightarrow> DRM_RESULT"
  Drm_Content_SetProperty :: "event list \<Rightarrow> DRM_RESULT"
  File_Exists :: "event list \<Rightarrow> bool"
  Drm_SecureStop_EnumerateSessions :: "event list \<Rightarrow> DRM_RESULT \<times> 32 word \<times> byte list list"
  Drm_SecureStop_GenerateChallenge :: "event list \<Rightarrow> DRM_RESULT \<times> 32 word \<times> byte list"
  Drm_SecureStop_ProcessResponse :: "event list \<Rightarrow> DRM_RESULT"

subsection \<open>The object\<close>

record PlayReady =
  m_drmOemContext :: "nat option"
  m_pbOpaqueBuffer :: "nat option"
  m_pbRevocationBuffer :: "nat option"
  m_poAppContext :: "nat option"
  m_readDir :: string
  m_storeLocation :: string
  m_meteringCertificate :: "byte list option"
  m_meteringCertificateSize :: "32 word"
  calls :: "event list"

definition call :: "PlayReady \<Rightarrow> event \<Rightarrow> PlayReady" where
  "call s ev = s\<lparr>calls := calls s @ [ev]\<rparr>"

subsection \<open>Memory copies\<close>

text \<open>
  \<open>memcpy(dst + off, src, n)\<close> on buffers whose sizes the model knows: a copy that
  would leave either buffer is an error value, since the C program has no defined
  behaviour there.
\<close>

datatype mem_error = ReadOverrun | WriteOverrun

definition memcpy :: "byte list \<Rightarrow> nat \<Rightarrow> byte list \<Rightarrow> nat \<Rightarrow> mem_error + byte list" where
  "memcpy dst off src n =
     (if length src < n then Inl ReadOverrun
      else if length dst < off + n then Inl WriteOverrun
      else Inr (take off dst @ take n src @ drop (off + n) dst))"

text \<open>
  Modelled from the spec: the macro \<open>DRM_ID_SIZE\<close> of the SDK headers, the size of
  \<open>DRM_ID::rgb\<close>; the spec gives the session identifier as a 16-byte token.
\<close>

definition DRM_ID_SIZE :: nat where
  "DRM_ID_SIZE = 16"

text \<open>
  \<open>DRM_ID id; memcpy(id.rgb, sessionID, sessionIDLength)\<close>: the local \<open>id\<close> is not
  initialised, so only its first \<open>sessionIDLength\<close> bytes are determined; the model
  hands on these bytes.
\<close>

definition copy_session_id :: "byte list \<Rightarrow> 32 word \<Rightarrow> mem_error + byte list" where
  "copy_session_id sessionID sessionIDLength =
     (if length sessionID < unat sessionIDLength then Inl ReadOverrun
      else if DRM_ID_SIZE < unat sessionIDLength then Inl WriteOverrun
      else Inr (take (unat sessionIDLength) sessionID))"

subsection \<open>DeinitializeSystem\<close>

definition DeinitializeSystem :: "env \<Rightarrow> PlayReady \<Rightarrow> PlayReady" where
  "DeinitializeSystem e s =
     (let s1 = (case m_poAppContext s of
                  Some ctx \<Rightarrow>
                    (let s' = call s (Call_Drm_StoreMgmt_CleanupStore ctx);
                         dr = Drm_StoreMgmt_CleanupStore e (calls s');
                         s'' = call s' (Call_Drm_Uninitialize ctx)
                     in s''\<lparr>m_poAppContext := None\<rparr>)
                | None \<Rightarrow> s)
      in call s1 (Call_Drm_Platform_Uninitialize (m_drmOemContext s1)))"

subsection \<open>CommitSecureStop\<close>

definition CommitSecureStop ::
  "env \<Rightarrow> PlayReady \<Rightarrow> byte list \<Rightarrow> 32 word \<Rightarrow> byte list \<Rightarrow> 32 word
     \<Rightarrow> mem_error + (CDMi_RESULT \<times> PlayReady)" where
  "CommitSecureStop e s sessionID sessionIDLength serverResponse serverResponseLength =
     (let cr = CDMi_SUCCESS;
          cr = (if sessionIDLength = 0 then CDMi_S_FALSE else cr);
          cr = (if serverResponseLength = 0 then CDMi_S_FALSE else cr)
      in if cr = CDMi_SUCCESS then
           (case copy_session_id sessionID sessionIDLength of
              Inl err \<Rightarrow> Inl err
            | Inr sessionDrmId \<Rightarrow>
                (let s1 = call s (Call_Drm_SecureStop_ProcessResponse sessionDrmId
                                    (take (unat serverResponseLength) serverResponse));
                     dr = Drm_SecureStop_ProcessResponse e (calls s1)
                 in Inr (cr, s1)))
         else Inr (cr, s))"

subsection \<open>GetSecureStop\<close>

text \<open>
  \<open>rawData\<close> is the caller's buffer (\<open>None\<close> for a null pointer) and \<open>rawSize\<close> the
  16-bit size passed by reference; both are returned. \<open>ssChallengeSize\<close> is a
  \<open>DRM_DWORD\<close>, 32 bits wide: the comparison is made at 32 bits and the assignment to
  \<open>rawSize\<close> narrows to 16 bits.
\<close>

definition GetSecureStop ::
  "env \<Rightarrow> PlayReady \<Rightarrow> byte list \<Rightarrow> 32 word \<Rightarrow> byte list option \<Rightarrow> 16 word
     \<Rightarrow> mem_error + (CDMi_RESULT \<times> byte list option \<times> 16 word \<times> PlayReady)" where
  "GetSecureStop e s sessionID sessionIDLength rawData rawSize =
     (case copy_session_id sessionID sessionIDLength of
        Inl err \<Rightarrow> Inl err
      | Inr ssSessionDrmId \<Rightarrow>
          (let s1 = call s (Call_Drm_SecureStop_GenerateChallenge ssSessionDrmId) in
           case Drm_SecureStop_GenerateChallenge e (calls s1) of
             (dr, ssChallengeSize, ssChallenge) \<Rightarrow>
               if dr \<noteq> DRM_SUCCESS then Inr (CDMi_S_FALSE, rawData, rawSize, s1)
               else
                 (case rawData of
                    None \<Rightarrow> Inr (CDMi_SUCCESS, None, ucast ssChallengeSize, s1)
                  | Some buf \<Rightarrow>
                      if ssChallengeSize \<le> ucast rawSize then
                        (case memcpy buf 0 ssChallenge (unat ssChallengeSize) of
                           Inl err \<Rightarrow> Inl err
                         | Inr buf' \<Rightarrow>
                             Inr (CDMi_SUCCESS, Some buf', ucast ssChallengeSize, s1))
                      else Inr (CDMi_SUCCESS, Some buf, ucast ssChallengeSize, s1))))"

subsection \<open>GetSecureStopIds\<close>

text \<open>
  The copy loop \<open>for (uint32_t i = 0; i < count; ++i) memcpy(&ids[i * DRM_ID_SIZE],
  ssSessionIds[i].rgb, DRM_ID_SIZE)\<close>. The counter is a natural number below
  \<open>count < 2^32\<close>; the index is computed at 32 bits. \<open>ids\<close> is the caller's buffer with
  its real size; the parameter \<open>idsLength\<close> is not read by the source.
\<close>

function copy_ids :: "nat \<Rightarrow> nat \<Rightarrow> byte list list \<Rightarrow> byte list \<Rightarrow> mem_error + byte list" where
  "copy_ids i count ssSessionIds ids =
     (if i < count then
        (if length ssSessionIds \<le> i then Inl ReadOverrun
         else
           (case memcpy ids ((i * DRM_ID_SIZE) mod 2 ^ 32) (ssSessionIds ! i) DRM_ID_SIZE of
              Inl err \<Rightarrow> Inl err
            | Inr ids' \<Rightarrow> copy_ids (Suc i) count ssSessionIds ids'))
      else Inr ids)"
  by pat_completeness auto
termination
  by (relation "measure (\<lambda>(i, count, _, _). count - i)") auto

definition GetSecureStopIds ::
  "env \<Rightarrow> PlayReady \<Rightarrow> byte list \<Rightarrow> 16 word \<Rightarrow> 32 word
     \<Rightarrow> mem_error + (CDMi_RESULT \<times> byte list \<times> 32 word \<times> PlayReady)" where
  "GetSecureStopIds e s ids idsLength count =
     (let s1 = call s (Call_Drm_SecureStop_EnumerateSessions count) in
      case Drm_SecureStop_EnumerateSessions e (calls s1) of
        (dr, count', ssSessionIds) \<Rightarrow>
          if dr \<noteq> DRM_SUCCESS \<and> dr \<noteq> DRM_E_NOMORE then Inr (CDMi_S_FALSE, ids, count', s1)
          else
            (case copy_ids 0 (unat count') ssSessionIds ids of
               Inl err \<Rightarrow> Inl err
             | Inr ids' \<Rightarrow> Inr (CDMi_SUCCESS, ids', count', s1)))"

subsection \<open>InitSecureClock\<close>

definition MAX_TIME_CHALLENGE_RESPONSE_LENGTH :: nat where
  "MAX_TIME_CHALLENGE_RESPONSE_LENGTH = 1024 * 64"

definition MAX_URL_LENGTH :: nat where
  "MAX_URL_LENGTH = 512"

text \<open>
  The loop \<open>do { ... } while (redirect)\<close>. Its state is the response code of the last
  petition and the URL it gave; \<open>redirect\<close> is true at the end of the body exactly
  when the body took the 301/302 branch and the new petition returned 0, so the loop
  is the recursion below. The result is \<open>Inl rc\<close> for a \<open>goto ErrorExit\<close> with that
  \<open>rc\<close>, and \<open>Inr url\<close> when the loop is left with the challenge URL. The source has
  no counter, so the loop need not end: the function is partial, \<open>None\<close> standing for a
  run that never leaves the loop. URLs are taken to fit the buffers of
  \<open>MAX_URL_LENGTH\<close> bytes.
\<close>

partial_function (option) redirect_loop ::
  "env \<Rightarrow> PlayReady \<Rightarrow> 32 word \<Rightarrow> string \<Rightarrow> ((int + string) \<times> PlayReady) option" where
  "redirect_loop e s petRespCode pTimeChallengeURL =
     (if petRespCode = 200 then Some (Inr pTimeChallengeURL, s)
      else if petRespCode = 302 \<or> petRespCode = 301 then
        (case PRDY_HTTP_Client_GetSecureTimeUrl e
                (calls (call s (Call_GetSecureTimeUrl pTimeChallengeURL))) of
           (petRC, petRespCode', pTimeChallengeURL') \<Rightarrow>
             if petRC \<noteq> 0
             then Some (Inl petRC, call s (Call_GetSecureTimeUrl pTimeChallengeURL))
             else redirect_loop e (call s (Call_GetSecureTimeUrl pTimeChallengeURL))
                    petRespCode' pTimeChallengeURL')
      else Some (Inl (- 1), s))"

declare redirect_loop.simps [code]

text \<open>
  The part of \<open>InitSecureClock\<close> after the loop. \<open>rc\<close> is 0 (\<open>NEXUS_SUCCESS\<close>) once the
  response buffer is allocated, and neither outcome of
  \<open>Drm_SecureTime_ProcessResponse\<close> assigns it: a failed response sets \<open>dr\<close> and jumps
  to \<open>ErrorExit\<close>, where \<open>rc\<close> is returned.
\<close>

definition post_time_challenge ::
  "env \<Rightarrow> PlayReady \<Rightarrow> byte list \<Rightarrow> string \<Rightarrow> int \<times> PlayReady" where
  "post_time_challenge e s pbChallenge pTimeChallengeURL =
     (let s1 = call s (Call_NEXUS_Memory_Allocate MAX_TIME_CHALLENGE_RESPONSE_LENGTH);
          rc = NEXUS_Memory_Allocate e (calls s1)
      in if rc \<noteq> 0 then (rc, s1)
         else
           (let s2 = call s1 (Call_SecureTimeChallengePost pTimeChallengeURL pbChallenge) in
            case PRDY_HTTP_Client_SecureTimeChallengePost e (calls s2) of
              (post_ret, pbResponse) \<Rightarrow>
                if post_ret \<noteq> 0 then (sint post_ret, s2)
                else
                  (let s3 = call s2 (Call_Drm_SecureTime_ProcessResponse pbResponse);
                       drResponse = Drm_SecureTime_ProcessResponse e (calls s3)
                   in if drResponse \<noteq> DRM_SUCCESS \<and> DRM_FAILED drResponse then (rc, s3)
                      else (rc, s3))))"

definition InitSecureClock :: "env \<Rightarrow> PlayReady \<Rightarrow> (int \<times> PlayReady) option" where
  "InitSecureClock e s =
     (let rc = 0;
          s1 = call s Call_Drm_SecureTime_GenerateChallenge in
      case Drm_SecureTime_GenerateChallenge e (calls s1) of
        (dr, pbChallenge) \<Rightarrow>
          if DRM_FAILED dr then Some (rc, s1)
          else
            (let s2 = call s1 (Call_NEXUS_Memory_Allocate MAX_URL_LENGTH);
                 rc = NEXUS_Memory_Allocate e (calls s2)
             in if rc \<noteq> 0 then Some (rc, s2)
                else
                  (let s3 = call s2 Call_GetForwardLinkUrl in
                   case PRDY_HTTP_Client_GetForwardLinkUrl e (calls s3) of
                     (petRC, petRespCode, pTimeChallengeURL) \<Rightarrow>
                       if petRC \<noteq> 0 then Some (petRC, s3)
                       else
                         (case redirect_loop e s3 petRespCode pTimeChallengeURL of
                            None \<Rightarrow> None
                          | Some (Inl rc, s4) \<Rightarrow> Some (rc, s4)
                          | Some (Inr url, s4) \<Rightarrow>
                              Some (post_time_challenge e s4 pbChallenge url)))))"

subsection \<open>LoadRevocationList\<close>

text \<open>
  \<open>BKNI_Memcpy(revBuf + off, src, n)\<close> into the block of \<open>fileSize\<close> bytes: the bytes
  that land inside the block, and those that are written past its end. The source
  does not compare \<open>off + n\<close> with \<open>fileSize\<close>.
\<close>

definition written_inside :: "byte list \<Rightarrow> nat \<Rightarrow> byte list \<Rightarrow> byte list" where
  "written_inside revBuf off src =
     take (length revBuf) (take off revBuf @ src @ drop (off + length src) revBuf)"

definition written_past :: "byte list \<Rightarrow> nat \<Rightarrow> byte list \<Rightarrow> byte list" where
  "written_past revBuf off src = drop (length revBuf - off) src"

text \<open>
  The read loop: \<open>fread\<close> hands out the stream in pieces of at most 512 bytes, each
  copied to \<open>revBuf + currSize\<close>, until it returns 0; \<open>currSize\<close> is a \<open>uint32_t\<close>. A
  piece that does not fit the block is copied all the same: C gives the program no
  defined behaviour from there on. The model keeps the bytes written past the end in
  the history, where every later oracle sees them, and follows the text of the source
  on.
\<close>

function fread_loop ::
  "byte list \<Rightarrow> byte list \<Rightarrow> nat \<Rightarrow> PlayReady \<Rightarrow> byte list \<times> PlayReady" where
  "fread_loop file revBuf currSize s =
     (if length (take 512 file) \<le> 0 then (revBuf, s)
      else fread_loop (drop 512 file)
             (written_inside revBuf currSize (take 512 file))
             ((currSize + length (take 512 file)) mod 2 ^ 32)
             (if written_past revBuf currSize (take 512 file) = [] then s
              else call s (Write_past_revBuf (currSize - length revBuf)
                             (written_past revBuf currSize (take 512 file)))))"
  by pat_completeness auto
termination
  by (relation "measure (\<lambda>(file, _, _, _). length file)") auto

definition LoadRevocationList :: "env \<Rightarrow> PlayReady \<Rightarrow> string \<Rightarrow> bool \<times> PlayReady" where
  "LoadRevocationList e s revListFile =
     (let s1 = call s (Call_fopen revListFile) in
      case fopen_rb e (calls s1) of
        None \<Rightarrow> (True, s1)
      | Some (fileSize, file) \<Rightarrow>
          (let s2 = call s1 (Call_BKNI_Malloc fileSize)
           in if \<not> BKNI_Malloc e (calls s2) then (False, s2)
              else
                (case fread_loop file (replicate fileSize 0) 0 s2 of
                   (revBuf, s2') \<Rightarrow>
                     (let s3 = call s2' (Call_Drm_Revocation_StorePackage revBuf fileSize);
                          dr = Drm_Revocation_StorePackage e (calls s3)
                      in if DRM_FAILED dr then (False, s3) else (True, s3)))))"

subsection \<open>CreateSystemExt\<close>

definition DRM_DEFAULT_REVOCATION_LIST_FILE :: string where
  "DRM_DEFAULT_REVOCATION_LIST_FILE = ''/tmp/revpackage.xml''"

text \<open>
  The label \<open>ErrorExit\<close> of \<open>CreateSystemExt\<close>, reached by every \<open>goto\<close> and by the end
  of the body, with the value that the local \<open>dr\<close> has then.
\<close>

definition ErrorExit :: "DRM_RESULT \<Rightarrow> PlayReady \<Rightarrow> CDMi_RESULT \<times> PlayReady" where
  "ErrorExit dr s =
     (if DRM_FAILED dr then (CDMi_S_FALSE, s\<lparr>m_poAppContext := None\<rparr>)
      else (CDMi_SUCCESS, s))"

text \<open>
  The body of \<open>CreateSystemExt\<close>, cut at its comments into the steps that follow one
  another; each step ends at \<open>ErrorExit\<close> or goes on with the next. The macros of the
  SDK are \<open>ChkDR(e)\<close>: \<open>dr = e; if (DRM_FAILED(dr)) goto ErrorExit\<close>, and \<open>ChkMem(p)\<close>:
  \<open>if (p == NULL) { dr = DRM_E_OUTOFMEMORY; goto ErrorExit; }\<close>.
\<close>

text \<open>Set encryption/decryption mode, then \<open>ErrorExit\<close>.\<close>

definition set_decryption_mode :: "env \<Rightarrow> PlayReady \<Rightarrow> CDMi_RESULT \<times> PlayReady" where
  "set_decryption_mode e s =
     (let s1 = call s Call_Drm_Content_SetProperty;
          dr = Drm_Content_SetProperty e (calls s1)
      in ErrorExit dr s1)"

text \<open>The block \<open>if (DRM_REVOCATION_IsRevocationSupported())\<close>.\<close>

definition setup_revocation :: "env \<Rightarrow> PlayReady \<Rightarrow> CDMi_RESULT \<times> PlayReady" where
  "setup_revocation e s =
     (if DRM_REVOCATION_IsRevocationSupported e then
        (let s1 = call s (Call_Oem_MemAlloc RevocationBuffer);
             s2 = s1\<lparr>m_pbRevocationBuffer := Oem_MemAlloc e (calls s1)\<rparr>
         in if m_pbRevocationBuffer s2 = None then ErrorExit DRM_E_OUTOFMEMORY s2
            else
              (let s3 = call s2 Call_Drm_Revocation_SetBuffer;
                   dr = Drm_Revocation_SetBuffer e (calls s3)
               in if DRM_FAILED dr then ErrorExit dr s3
                  else
                    (case LoadRevocationList e s3 DRM_DEFAULT_REVOCATION_LIST_FILE of
                       (loaded, s4) \<Rightarrow>
                         if \<not> loaded then ErrorExit dr s4
                         else set_decryption_mode e s4)))
      else set_decryption_mode e s)"

text \<open>The call of \<open>Drm_ResizeInMemoryLicenseStore\<close>.\<close>

definition resize_license_store :: "env \<Rightarrow> PlayReady \<Rightarrow> CDMi_RESULT \<times> PlayReady" where
  "resize_license_store e s =
     (let s1 = call s Call_Drm_ResizeInMemoryLicenseStore;
          dr = Drm_ResizeInMemoryLicenseStore e (calls s1)
      in if DRM_FAILED dr then ErrorExit dr s1 else setup_revocation e s1)"

text \<open>
  The \<open>DRMSYSTEMTIME\<close> built from \<open>gmtime\<close>'s result and \<open>tv_usec\<close>; the fields are
  16 bits wide, and the division of C rounds towards zero.
\<close>

definition system_time_of :: "tm \<Rightarrow> int \<Rightarrow> DRMSYSTEMTIME" where
  "system_time_of t tv_usec =
     \<lparr> wYear = word_of_int (tm_year t + 1900),
       wMonth = word_of_int (tm_mon t + 1),
       wDayOfWeek = word_of_int (tm_wday t),
       wDay = word_of_int (tm_mday t),
       wHour = word_of_int (tm_hour t),
       wMinute = word_of_int (tm_min t),
       wSecond = word_of_int (tm_sec t),
       wMilliseconds = word_of_int (tv_usec sdiv 1000) \<rparr>"

text \<open>The clock: \<open>Drm_SecureTime_GetValue\<close> and the three branches on its result.\<close>

definition setup_clock :: "env \<Rightarrow> PlayReady \<Rightarrow> (CDMi_RESULT \<times> PlayReady) option" where
  "setup_clock e s =
     (let s1 = call s Call_Drm_SecureTime_GetValue;
          dr = Drm_SecureTime_GetValue e (calls s1)
      in if dr = DRM_E_SECURETIME_CLOCK_NOT_SET \<or> dr = DRM_E_TEE_PROVISIONING_REQUIRED then
           (case InitSecureClock e s1 of
              None \<Rightarrow> None
            | Some (rc, s2) \<Rightarrow>
                if rc \<noteq> 0 then Some (ErrorExit dr s2)
                else Some (resize_license_store e s2))
         else if dr = DRM_E_CLK_NOT_SUPPORTED then
           (let s2 = call s1 Call_gettimeofday;
                tv = gettimeofday e (calls s2);
                systemTime = system_time_of (gmtime e (fst tv)) (snd tv);
                s3 = call s2 (Call_Drm_AntiRollBackClock_Init systemTime)
            in if Drm_AntiRollBackClock_Init e (calls s3) \<noteq> DRM_SUCCESS
               then Some (ErrorExit dr s3)
               else Some (resize_license_store e s3))
         else if dr \<noteq> DRM_SUCCESS then Some (ErrorExit dr s1)
         else Some (resize_license_store e s1))"

text \<open>The start of the body, up to the call of \<open>Drm_Initialize\<close>.\<close>

definition enter_Drm_Initialize :: "env \<Rightarrow> PlayReady \<Rightarrow> PlayReady" where
  "enter_Drm_Initialize e s =
     (let s1 = call s Call_new_DRM_APP_CONTEXT;
          s2 = s1\<lparr>m_poAppContext := Some (new_DRM_APP_CONTEXT e (calls s1))\<rparr>;
          s3 = call s2 (Call_Oem_MemAlloc OpaqueBuffer);
          s4 = s3\<lparr>m_pbOpaqueBuffer := Oem_MemAlloc e (calls s3)\<rparr>
      in call s4 (Call_Drm_Initialize (new_DRM_APP_CONTEXT e (calls s1)) (m_storeLocation s4)))"

definition CreateSystemExt :: "env \<Rightarrow> PlayReady \<Rightarrow> (CDMi_RESULT \<times> PlayReady) option" where
  "CreateSystemExt e s =
     (let s1 = enter_Drm_Initialize e s;
          dr = Drm_Initialize e (calls s1)
      in if DRM_FAILED dr then Some (ErrorExit dr s1) else setup_clock e s1)"

subsection \<open>InitializeSystem\<close>

text \<open>
  The choice of the Nexus heap only prepares the argument of \<open>Drm_Platform_Initialize\<close>
  and is left to that oracle. The result of \<open>CreateSystemExt\<close> is dropped, as in the
  source.
\<close>

definition InitializeSystem :: "env \<Rightarrow> PlayReady \<Rightarrow> PlayReady option" where
  "InitializeSystem e s =
     (let s0 = (if m_poAppContext s \<noteq> None then DeinitializeSystem e s else s);
          s1 = call s0 (Call_CreatePath (m_readDir s0));
          s2 = call s1 Call_Drm_Platform_Initialize
      in case Drm_Platform_Initialize e (calls s2) of
           (dr, f_pOEMContext) \<Rightarrow>
             if DRM_FAILED dr then Some s2
             else
               (let s3 = s2\<lparr>m_drmOemContext := f_pOEMContext\<rparr>
                in if m_drmOemContext s3 = None then Some s3
                   else map_option snd (CreateSystemExt e s3)))"

subsection \<open>CreateMediaKeySession\<close>

text \<open>
  The parameters that the source does not read (key system, licence type, init data
  type) are left out; the two buffers come with their lengths. The session object is
  the call of its constructor, with the two contexts it is given.
\<close>

definition CreateMediaKeySession ::
  "env \<Rightarrow> PlayReady \<Rightarrow> byte list \<Rightarrow> byte list \<Rightarrow> (CDMi_RESULT \<times> PlayReady) option" where
  "CreateMediaKeySession e s f_pbInitData f_pbCDMData =
     (let s1 = call s (Call_File_Exists (m_storeLocation s)) in
      case (if File_Exists e (calls s1) = False then InitializeSystem e s1 else Some s1) of
        None \<Rightarrow> None
      | Some s2 \<Rightarrow>
          Some (CDMi_SUCCESS,
                call s2 (Call_new_MediaKeySession f_pbInitData f_pbCDMData
                           (m_drmOemContext s2) (m_poAppContext s2))))"

subsection \<open>Observations on histories\<close>

text \<open>The redirect hops of a history: the requests \<open>PRDY_HTTP_Client_GetSecureTimeUrl\<close>.\<close>

fun is_hop :: "event \<Rightarrow> bool" where
  "is_hop (Call_GetSecureTimeUrl _) = True"
| "is_hop _ = False"

definition hop_count :: "event list \<Rightarrow> nat" where
  "hop_count tr = length (filter is_hop tr)"

text \<open>
  The petitions of the clock bootstrap as the environment answers them. A petition is
  the history at its answer with the answer: return code, response code and URL.
  \<open>first_petition\<close> is the request for the forward link, made after the challenge is
  generated and the URL buffer allocated; \<open>petition\<close> is the request that follows a
  redirection to the URL of the answer before; \<open>petitions e s k\<close> is the answer after
  \<open>k\<close> redirections have been followed. An answer is \<open>redirected\<close> when its request
  succeeded with status 301 or 302.
\<close>

type_synonym petition_answer = "PlayReady \<times> int \<times> 32 word \<times> string"

definition first_petition :: "env \<Rightarrow> PlayReady \<Rightarrow> petition_answer" where
  "first_petition e s =
     (let s3 = call (call (call s Call_Drm_SecureTime_GenerateChallenge)
                       (Call_NEXUS_Memory_Allocate MAX_URL_LENGTH)) Call_GetForwardLinkUrl
      in (s3, PRDY_HTTP_Client_GetForwardLinkUrl e (calls s3)))"

definition petition :: "env \<Rightarrow> petition_answer \<Rightarrow> petition_answer" where
  "petition e = (\<lambda>(s, petRC, petRespCode, url).
     (call s (Call_GetSecureTimeUrl url),
      PRDY_HTTP_Client_GetSecureTimeUrl e (calls (call s (Call_GetSecureTimeUrl url)))))"

definition petitions :: "env \<Rightarrow> PlayReady \<Rightarrow> nat \<Rightarrow> petition_answer" where
  "petitions e s k = (petition e ^^ k) (first_petition e s)"

definition redirected :: "petition_answer \<Rightarrow> bool" where
  "redirected = (\<lambda>(s, petRC, petRespCode, url).
     petRC = 0 \<and> (petRespCode = 302 \<or> petRespCode = 301))"

text \<open>The run of the redirect loop from an answer on, when the answer is tested.\<close>

definition resume :: "env \<Rightarrow> petition_answer \<Rightarrow> ((int + string) \<times> PlayReady) option" where
  "resume e = (\<lambda>(s, petRC, petRespCode, url).
     if petRC \<noteq> 0 then Some (Inl petRC, s) else redirect_loop e s petRespCode url)"

text \<open>The calls made between two states of one run.\<close>

definition later_calls :: "PlayReady \<Rightarrow> PlayReady \<Rightarrow> event list" where
  "later_calls s s' = drop (length (calls s)) (calls s')"

text \<open>
  The calls that start one of the two clock strategies: the first call of
  \<open>InitSecureClock\<close>, and the initialisation of the anti-rollback clock.
\<close>

fun is_clock_call :: "event \<Rightarrow> bool" where
  "is_clock_call Call_Drm_SecureTime_GenerateChallenge = True"
| "is_clock_call (Call_Drm_AntiRollBackClock_Init _) = True"
| "is_clock_call _ = False"

subsection \<open>Environments and objects for concrete runs\<close>

text \<open>
  \<open>gmtime\<close> of libc on the first day of the epoch, Thursday 1 January 1970: the
  broken-down time of \<open>t\<close> seconds for \<open>0 \<le> t < 86400\<close>.
\<close>

definition gmtime_first_day :: "int \<Rightarrow> tm" where
  "gmtime_first_day t =
     \<lparr> tm_year = 70, tm_mon = 0, tm_wday = 4, tm_mday = 1,
       tm_hour = t div 3600, tm_min = t mod 3600 div 60, tm_sec = t mod 60 \<rparr>"

text \<open>
  An environment in which every external call succeeds and no file exists, at the
  start of the epoch.
\<close>

definition nominal_env :: env where
  "nominal_env =
     \<lparr> Drm_Platform_Initialize = (\<lambda>_. (DRM_SUCCESS, Some 1)),
       Drm_StoreMgmt_CleanupStore = (\<lambda>_. DRM_SUCCESS),
       new_DRM_APP_CONTEXT = (\<lambda>_. 2),
       Oem_MemAlloc = (\<lambda>_. Some 3),
       Drm_Initialize = (\<lambda>_. DRM_SUCCESS),
       Drm_SecureTime_GetValue = (\<lambda>_. DRM_SUCCESS),
       Drm_SecureTime_GenerateChallenge = (\<lambda>_. (DRM_SUCCESS, [])),
       NEXUS_Memory_Allocate = (\<lambda>_. 0),
       PRDY_HTTP_Client_GetForwardLinkUrl = (\<lambda>_. (0, 200, ''u'')),
       PRDY_HTTP_Client_GetSecureTimeUrl = (\<lambda>_. (0, 200, ''u'')),
       PRDY_HTTP_Client_SecureTimeChallengePost = (\<lambda>_. (0, [])),
       Drm_SecureTime_ProcessResponse = (\<lambda>_. DRM_SUCCESS),
       gettimeofday = (\<lambda>_. (0, 0)),
       gmtime = gmtime_first_day,
       Drm_AntiRollBackClock_Init = (\<lambda>_. DRM_SUCCESS),
       Drm_ResizeInMemoryLicenseStore = (\<lambda>_. DRM_SUCCESS),
       DRM_REVOCATION_IsRevocationSupported = True,
       Drm_Revocation_SetBuffer = (\<lambda>_. DRM_SUCCESS),
       fopen_rb = (\<lambda>_. None),
       BKNI_Malloc = (\<lambda>_. True),
       Drm_Revocation_StorePackage = (\<lambda>_. DRM_SUCCESS),
       Drm_Content_SetProperty = (\<lambda>_. DRM_SUCCESS),
       File_Exists = (\<lambda>_. False),
       Drm_SecureStop_EnumerateSessions = (\<lambda>_. (DRM_SUCCESS, 0, [])),
       Drm_SecureStop_GenerateChallenge = (\<lambda>_. (DRM_SUCCESS, 0, [])),
       Drm_SecureStop_ProcessResponse = (\<lambda>_. DRM_SUCCESS) \<rparr>"

text \<open>The object as its constructor leaves it, with the paths of \<open>Initialize\<close>.\<close>

definition fresh :: PlayReady where
  "fresh =
     \<lparr> m_drmOemContext = None, m_pbOpaqueBuffer = None, m_pbRevocationBuffer = None,
       m_poAppContext = None, m_readDir = ''/p/'', m_storeLocation = ''/p/drmstore'',
       m_meteringCertificate = None, m_meteringCertificateSize = 0, calls = [] \<rparr>"

text \<open>An object whose system is up: platform and application context are live.\<close>

definition ready :: PlayReady where
  "ready = fresh\<lparr> m_drmOemContext := Some 1, m_poAppContext := Some 2 \<rparr>"

definition id16 :: "byte list" where
  "id16 = [1, 2, 3, 4, 5, 6, 7, 8, 9, 10, 11, 12, 13, 14, 15, 16]"

text \<open>Environments of the secure stop runs.\<close>

definition two_stops_env :: env where
  "two_stops_env =
     nominal_env\<lparr>Drm_SecureStop_EnumerateSessions := (\<lambda>_. (DRM_SUCCESS, 2, [id16, rev id16]))\<rparr>"

definition big_challenge_env :: env where
  "big_challenge_env =
     nominal_env\<lparr>Drm_SecureStop_GenerateChallenge :=
                   (\<lambda>_. (DRM_SUCCESS, 70000, replicate 70000 0))\<rparr>"

definition small_challenge_env :: env where
  "small_challenge_env =
     nominal_env\<lparr>Drm_SecureStop_GenerateChallenge := (\<lambda>_. (DRM_SUCCESS, 3, [7, 8, 9]))\<rparr>"

text \<open>
  Networks of the clock bootstrap. In each the stored clock is not set. In
  \<open>redirect_chain n\<close> the time authority answers with \<open>n\<close> redirections and then with
  200; in \<open>endless_redirect_env\<close> every answer is a redirection.
\<close>

definition redirect_chain :: "nat \<Rightarrow> env" where
  "redirect_chain n =
     nominal_env\<lparr> Drm_SecureTime_GetValue := (\<lambda>_. DRM_E_SECURETIME_CLOCK_NOT_SET),
                  PRDY_HTTP_Client_GetForwardLinkUrl :=
                    (\<lambda>_. (0, if 0 < n then 302 else 200, ''u'')),
                  PRDY_HTTP_Client_GetSecureTimeUrl :=
                    (\<lambda>tr. (0, if hop_count tr < n then 302 else 200, ''u'')) \<rparr>"

text \<open>
  Networks in which the first redirection is followed by a request that fails with
  return code 7, and by an answer with status 404.
\<close>

definition failing_hop_env :: env where
  "failing_hop_env =
     nominal_env\<lparr> Drm_SecureTime_GetValue := (\<lambda>_. DRM_E_SECURETIME_CLOCK_NOT_SET),
                  PRDY_HTTP_Client_GetForwardLinkUrl := (\<lambda>_. (0, 301, ''u'')),
                  PRDY_HTTP_Client_GetSecureTimeUrl := (\<lambda>_. (7, 0, [])) \<rparr>"

definition not_found_env :: env where
  "not_found_env =
     nominal_env\<lparr> Drm_SecureTime_GetValue := (\<lambda>_. DRM_E_SECURETIME_CLOCK_NOT_SET),
                  PRDY_HTTP_Client_GetForwardLinkUrl := (\<lambda>_. (0, 301, ''u'')),
                  PRDY_HTTP_Client_GetSecureTimeUrl := (\<lambda>_. (0, 404, ''v'')) \<rparr>"

definition endless_redirect_env :: env where
  "endless_redirect_env =
     nominal_env\<lparr> Drm_SecureTime_GetValue := (\<lambda>_. DRM_E_SECURETIME_CLOCK_NOT_SET),
                  PRDY_HTTP_Client_GetForwardLinkUrl := (\<lambda>_. (0, 302, ''u'')),
                  PRDY_HTTP_Client_GetSecureTimeUrl := (\<lambda>_. (0, 302, ''u'')) \<rparr>"

text \<open>
  Revocation lists that cannot be applied: the file exists, and either the SDK rejects
  the package or the buffer for it cannot be allocated.
\<close>

definition rejected_revocation_env :: env where
  "rejected_revocation_env =
     nominal_env\<lparr> fopen_rb := (\<lambda>_. Some (2, [0x3C, 0x3E])),
                  Drm_Revocation_StorePackage := (\<lambda>_. DRM_E_FAIL) \<rparr>"

definition no_memory_revocation_env :: env where
  "no_memory_revocation_env =
     nominal_env\<lparr> fopen_rb := (\<lambda>_. Some (2, [0x3C, 0x3E])),
                  BKNI_Malloc := (\<lambda>_. False) \<rparr>"

text \<open>A platform without secure clock, at 01:01:01.005 on the first day of the epoch.\<close>

definition no_secure_clock_env :: env where
  "no_secure_clock_env =
     nominal_env\<lparr> Drm_SecureTime_GetValue := (\<lambda>_. DRM_E_CLK_NOT_SUPPORTED),
                  gettimeofday := (\<lambda>_. (3661, 5000)) \<rparr>"

text \<open>The object after \<open>Drm_Platform_Initialize\<close>, before \<open>CreateSystemExt\<close>.\<close>

definition platform_up :: PlayReady where
  "platform_up = fresh\<lparr> m_drmOemContext := Some 1 \<rparr>"

section \<open>Secure stop commit\<close>

lemma CommitSecureStop_ignores_dr:
  assumes "sessionIDLength \<noteq> 0" and "serverResponseLength \<noteq> 0"
    and "CommitSecureStop e s sessionID sessionIDLength serverResponse serverResponseLength
           = Inr (cr, s')"
  shows "cr = CDMi_SUCCESS"
  using assms by (auto simp: CommitSecureStop_def Let_def split: sum.splits)

text \<open>
  C1. The claim: with a non-empty session id and a non-empty server response, a failing
  \<open>Drm_SecureStop_ProcessResponse\<close> makes \<open>CommitSecureStop\<close> return a failure. The code
  only logs the failing \<open>dr\<close> and returns \<open>cr\<close>, still \<open>CDMi_SUCCESS\<close>: here the run on a
  16-byte session id and a one-byte response that the SDK rejects with \<open>DRM_E_FAIL\<close>.
\<close>

theorem C1_commit_reports_success_on_rejected_response:
  "Drm_SecureStop_ProcessResponse
      (nominal_env\<lparr>Drm_SecureStop_ProcessResponse := (\<lambda>_. DRM_E_FAIL)\<rparr>)
      (calls ready @ [Call_Drm_SecureStop_ProcessResponse id16 [0x2A]]) = DRM_E_FAIL
   \<and> CommitSecureStop (nominal_env\<lparr>Drm_SecureStop_ProcessResponse := (\<lambda>_. DRM_E_FAIL)\<rparr>)
        ready id16 16 [0x2A] 1
     = Inr (CDMi_SUCCESS, call ready (Call_Drm_SecureStop_ProcessResponse id16 [0x2A]))"
  by (simp add: CommitSecureStop_def copy_session_id_def DRM_ID_SIZE_def id16_def
      nominal_env_def call_def)

text \<open>
  C6. When the session id length or the server response length is zero,
  \<open>CommitSecureStop\<close> returns \<open>CDMi_S_FALSE\<close> and the object, its history of external
  calls included, is unchanged: \<open>Drm_SecureStop_ProcessResponse\<close> is not called, so the
  ledger behind it is not touched.
\<close>

theorem C6_empty_input_rejected:
  assumes "sessionIDLength = 0 \<or> serverResponseLength = 0"
  shows "CommitSecureStop e s sessionID sessionIDLength serverResponse serverResponseLength
           = Inr (CDMi_S_FALSE, s)"
  using assms by (auto simp: CommitSecureStop_def)

theorem C6_empty_input_rejected_witness:
  "CommitSecureStop nominal_env ready id16 16 [] 0 = Inr (CDMi_S_FALSE, ready)
   \<and> CommitSecureStop nominal_env ready [] 0 [0x2A] 1 = Inr (CDMi_S_FALSE, ready)"
  using C6_empty_input_rejected [of 16 0 nominal_env ready id16 "[]"]
    C6_empty_input_rejected [of 0 1 nominal_env ready "[]" "[0x2A]"]
  by simp

section \<open>Teardown\<close>

text \<open>
  C5. The claim: \<open>DeinitializeSystem\<close> on an object whose application context is null
  is a no-op, without any platform-resource release. The call of
  \<open>Drm_Platform_Uninitialize\<close> stands after the guarded block, so it is made on every
  call: on the freshly constructed object the history grows by that call.
\<close>

theorem C5_deinitialize_not_noop:
  "m_poAppContext fresh = None
   \<and> DeinitializeSystem nominal_env fresh \<noteq> fresh
   \<and> calls (DeinitializeSystem nominal_env fresh)
       = calls fresh @ [Call_Drm_Platform_Uninitialize (m_drmOemContext fresh)]"
  by (simp add: DeinitializeSystem_def call_def fresh_def)

text \<open>
  C5 as amended. On a null application context \<open>DeinitializeSystem\<close> runs no store
  maintenance and releases no context: it changes no member variable and makes exactly
  one external call, \<open>Drm_Platform_Uninitialize\<close> on the stored OEM context. After any
  call, a second consecutive call does the same again: one more
  \<open>Drm_Platform_Uninitialize\<close> on the same OEM context and nothing else.
\<close>

theorem C5_deinitialize_on_null_context:
  "(m_poAppContext s = None \<longrightarrow>
      DeinitializeSystem e s = call s (Call_Drm_Platform_Uninitialize (m_drmOemContext s)))
   \<and> m_poAppContext (DeinitializeSystem e s) = None
   \<and> DeinitializeSystem e (DeinitializeSystem e s)
       = call (DeinitializeSystem e s) (Call_Drm_Platform_Uninitialize (m_drmOemContext s))"
  by (simp add: DeinitializeSystem_def call_def Let_def split: option.splits)

theorem C5_deinitialize_on_null_context_witness:
  "m_poAppContext fresh = None
   \<and> DeinitializeSystem nominal_env fresh = call fresh (Call_Drm_Platform_Uninitialize None)
   \<and> DeinitializeSystem nominal_env (DeinitializeSystem nominal_env ready)
       = call (DeinitializeSystem nominal_env ready) (Call_Drm_Platform_Uninitialize (Some 1))"
  using C5_deinitialize_on_null_context [of fresh nominal_env]
    C5_deinitialize_on_null_context [of ready nominal_env]
  by (simp add: fresh_def ready_def)

section \<open>Secure stop enumeration and challenge\<close>

declare copy_ids.simps [simp del]

lemma copy_ids_result:
  assumes "length sids = n" and "\<forall>x\<in>set sids. length x = DRM_ID_SIZE"
    and "n * DRM_ID_SIZE \<le> 2 ^ 32" and "i \<le> n" and "i * DRM_ID_SIZE \<le> length buf"
  shows "copy_ids i n sids buf =
           (if n * DRM_ID_SIZE \<le> length buf
            then Inr (take (i * DRM_ID_SIZE) buf @ concat (drop i sids) @ drop (n * DRM_ID_SIZE) buf)
            else Inl WriteOverrun)"
  using assms
proof (induction i n sids buf rule: copy_ids.induct)
  case (1 i count ssSessionIds ids)
  show ?case
  proof (cases "i < count")
    case False
    with 1 show ?thesis by (simp add: copy_ids.simps)
  next
    case True
    have li: "length (ssSessionIds ! i) = DRM_ID_SIZE" using 1 True by simp
    have nowrap: "(i * DRM_ID_SIZE) mod 2 ^ 32 = i * DRM_ID_SIZE"
      using 1 True by (simp add: DRM_ID_SIZE_def)
    show ?thesis
    proof (cases "i * DRM_ID_SIZE + DRM_ID_SIZE \<le> length ids")
      case False
      then have "\<not> count * DRM_ID_SIZE \<le> length ids" using True
        by (auto simp: DRM_ID_SIZE_def)
      with False True 1 li nowrap show ?thesis
        by (subst copy_ids.simps) (simp add: memcpy_def)
    next
      case fits: True
      define ids' where "ids' = take (i * DRM_ID_SIZE) ids @ ssSessionIds ! i @ drop (i * DRM_ID_SIZE + DRM_ID_SIZE) ids"
      have m: "memcpy ids ((i * DRM_ID_SIZE) mod 2 ^ 32) (ssSessionIds ! i) DRM_ID_SIZE = Inr ids'"
        using fits li nowrap by (simp add: memcpy_def ids'_def)
      have len: "length ids' = length ids" using fits li by (simp add: ids'_def)
      have IH: "copy_ids (Suc i) count ssSessionIds ids' =
           (if count * DRM_ID_SIZE \<le> length ids'
            then Inr (take (Suc i * DRM_ID_SIZE) ids' @ concat (drop (Suc i) ssSessionIds) @ drop (count * DRM_ID_SIZE) ids')
            else Inl WriteOverrun)"
        using "1.IH"[OF True _ m] True 1(2-4) fits len by simp
      have le: "i * DRM_ID_SIZE + DRM_ID_SIZE \<le> count * DRM_ID_SIZE"
        using True by (simp add: DRM_ID_SIZE_def)
      have t: "take (Suc i * DRM_ID_SIZE) ids' = take (i * DRM_ID_SIZE) ids @ ssSessionIds ! i"
        using fits li by (simp add: ids'_def)
      have d: "count * DRM_ID_SIZE \<le> length ids \<Longrightarrow> drop (count * DRM_ID_SIZE) ids' = drop (count * DRM_ID_SIZE) ids"
        using fits li le True by (simp add: ids'_def)
      have c: "concat (drop i ssSessionIds) = ssSessionIds ! i @ concat (drop (Suc i) ssSessionIds)"
        using True 1(2) by (simp flip: Cons_nth_drop_Suc)
      show ?thesis
        using True 1(2) m IH t d c len by (subst copy_ids.simps) simp
    qed
  qed
qed

text \<open>
  C9. \<open>GetSecureStopIds\<close> after a successful enumeration (\<open>DRM_SUCCESS\<close> or
  \<open>DRM_E_NOMORE\<close>) of \<open>n\<close> entries of 16 bytes: the loop writes the \<open>n * 16\<close> bytes of
  the entries, in order, from \<open>ids[0]\<close> on and leaves the rest of the buffer alone, when
  the buffer holds \<open>n * 16\<close> bytes; otherwise it writes past the end of the buffer.
  Nothing depends on the parameter \<open>idsLength\<close>: the result is the same for any two
  values of it, and when \<open>idsLength\<close> is the size of the buffer the write stays in
  bounds exactly when \<open>idsLength\<close> is at least \<open>n * 16\<close>. The entry count is below \<open>2^28\<close>, so that the 32-bit index does not wrap
  (the ledger holds at most 100 entries).
\<close>

theorem C9_ids_written_regardless_of_idsLength:
  assumes "Drm_SecureStop_EnumerateSessions e
             (calls s @ [Call_Drm_SecureStop_EnumerateSessions count]) = (dr, n, ssSessionIds)"
    and "dr = DRM_SUCCESS \<or> dr = DRM_E_NOMORE"
    and "length ssSessionIds = unat n"
    and "\<forall>x\<in>set ssSessionIds. length x = DRM_ID_SIZE"
    and "unat n < 2 ^ 28"
  shows "GetSecureStopIds e s ids idsLength count =
           (if unat n * DRM_ID_SIZE \<le> length ids
            then Inr (CDMi_SUCCESS, concat ssSessionIds @ drop (unat n * DRM_ID_SIZE) ids, n,
                      call s (Call_Drm_SecureStop_EnumerateSessions count))
            else Inl WriteOverrun)
         \<and> GetSecureStopIds e s ids idsLength count = GetSecureStopIds e s ids idsLength' count
         \<and> (length ids = unat idsLength \<longrightarrow>
              (GetSecureStopIds e s ids idsLength count \<noteq> Inl WriteOverrun
                 \<longleftrightarrow> unat n * DRM_ID_SIZE \<le> unat idsLength))"
proof -
  have bound: "unat n * DRM_ID_SIZE \<le> 2 ^ 32"
    using assms(5) by (simp add: DRM_ID_SIZE_def)
  have loop: "copy_ids 0 (unat n) ssSessionIds ids =
           (if unat n * DRM_ID_SIZE \<le> length ids
            then Inr (concat ssSessionIds @ drop (unat n * DRM_ID_SIZE) ids)
            else Inl WriteOverrun)"
    using copy_ids_result [OF assms(3) assms(4) bound, of 0 ids] by simp
  show ?thesis
    using assms(1) assms(2) loop by (auto simp: GetSecureStopIds_def call_def Let_def)
qed

theorem C9_ids_written_regardless_of_idsLength_witness:
  "GetSecureStopIds two_stops_env ready (replicate 40 0xFF) 40 0
     = Inr (CDMi_SUCCESS, id16 @ rev id16 @ replicate 8 0xFF, 2,
            call ready (Call_Drm_SecureStop_EnumerateSessions 0))
   \<and> GetSecureStopIds two_stops_env ready (replicate 20 0xFF) 20 0 = Inl WriteOverrun
   \<and> GetSecureStopIds two_stops_env ready (replicate 20 0xFF) 20 0
       = GetSecureStopIds two_stops_env ready (replicate 20 0xFF) 65535 0"
proof -
  have enum: "Drm_SecureStop_EnumerateSessions two_stops_env
                (calls ready @ [Call_Drm_SecureStop_EnumerateSessions 0])
              = (DRM_SUCCESS, 2, [id16, rev id16])"
    by (simp add: two_stops_env_def nominal_env_def)
  have ok: "DRM_SUCCESS = DRM_SUCCESS \<or> DRM_SUCCESS = DRM_E_NOMORE"
    by simp
  have len: "length [id16, rev id16] = unat (2 :: 32 word)"
    by simp
  have ids: "\<forall>x\<in>set [id16, rev id16]. length x = DRM_ID_SIZE"
    by (simp add: id16_def DRM_ID_SIZE_def)
  have small: "unat (2 :: 32 word) < 2 ^ 28"
    by simp
  show ?thesis
    using C9_ids_written_regardless_of_idsLength
            [OF enum ok len ids small, of "replicate 40 0xFF" 40 40]
          C9_ids_written_regardless_of_idsLength
            [OF enum ok len ids small, of "replicate 20 0xFF" 20 65535]
    by (auto simp: DRM_ID_SIZE_def)
qed

text \<open>
  C10. The claim: on a size query \<open>rawSize\<close> is overwritten with the required challenge
  size. The size is a 32-bit \<open>DRM_DWORD\<close> and \<open>rawSize\<close> a 16-bit reference: for a
  challenge of 70000 bytes the caller reads back 4464.
\<close>

theorem C10_size_truncated:
  "GetSecureStop big_challenge_env ready id16 16 None 0
     = Inr (CDMi_SUCCESS, None, 4464, call ready (Call_Drm_SecureStop_GenerateChallenge id16))
   \<and> Drm_SecureStop_GenerateChallenge big_challenge_env
        (calls ready @ [Call_Drm_SecureStop_GenerateChallenge id16])
       = (DRM_SUCCESS, 70000, replicate 70000 0)
   \<and> unat (4464 :: 16 word) \<noteq> unat (70000 :: 32 word)"
  by (simp add: GetSecureStop_def copy_session_id_def DRM_ID_SIZE_def id16_def
      big_challenge_env_def nominal_env_def call_def)

text \<open>
  C10 as amended. When the challenge is generated (\<open>DRM_SUCCESS\<close>), the call returns
  \<open>CDMi_SUCCESS\<close> and \<open>rawSize\<close> becomes the challenge size reduced modulo \<open>2^16\<close>,
  which is the challenge size itself when that is below 65536. The challenge is copied
  to the front of the buffer exactly when the buffer is not null and \<open>rawSize\<close> is at
  least the challenge size (then \<open>rawSize\<close> is the exact size); otherwise the buffer is
  left as it was. The caller's buffer is assumed to hold \<open>rawSize\<close> bytes and the SDK's
  challenge to have the size it reports.
\<close>

theorem C10_size_query:
  assumes "copy_session_id sessionID sessionIDLength = Inr ssSessionDrmId"
    and "Drm_SecureStop_GenerateChallenge e
           (calls s @ [Call_Drm_SecureStop_GenerateChallenge ssSessionDrmId])
         = (DRM_SUCCESS, ssChallengeSize, ssChallenge)"
    and "length ssChallenge = unat ssChallengeSize"
    and "\<forall>buf. rawData = Some buf \<longrightarrow> unat rawSize \<le> length buf"
  shows "GetSecureStop e s sessionID sessionIDLength rawData rawSize =
           Inr (CDMi_SUCCESS,
                (case rawData of
                   None \<Rightarrow> None
                 | Some buf \<Rightarrow>
                     if ssChallengeSize \<le> ucast rawSize
                     then Some (ssChallenge @ drop (unat ssChallengeSize) buf)
                     else Some buf),
                ucast ssChallengeSize,
                call s (Call_Drm_SecureStop_GenerateChallenge ssSessionDrmId))
         \<and> unat (ucast ssChallengeSize :: 16 word) = unat ssChallengeSize mod 65536
         \<and> (ssChallengeSize < 65536 \<longrightarrow>
              unat (ucast ssChallengeSize :: 16 word) = unat ssChallengeSize)
         \<and> (ssChallengeSize \<le> ucast rawSize \<longrightarrow>
              unat (ucast ssChallengeSize :: 16 word) = unat ssChallengeSize)"
proof -
  have trunc: "unat (ucast ssChallengeSize :: 16 word) = unat ssChallengeSize mod 65536"
    by (simp add: unsigned_ucast_eq take_bit_eq_mod)
  have small: "unat (ucast ssChallengeSize :: 16 word) = unat ssChallengeSize"
    if "ssChallengeSize < 65536"
    using that trunc by (simp add: word_less_nat_alt)
  have r: "unat rawSize < 65536"
  proof -
    have "unat rawSize < 2 ^ LENGTH(16)" by (rule unsigned_less)
    then show ?thesis by simp
  qed
  have fits: "ssChallengeSize < 65536" if "ssChallengeSize \<le> ucast rawSize"
  proof -
    have "unat (ucast rawSize :: 32 word) < 65536"
      using r by (simp add: unsigned_ucast_eq take_bit_eq_mod)
    then show ?thesis using that by (simp add: word_le_nat_alt word_less_nat_alt)
  qed
  have copy: "memcpy buf 0 ssChallenge (unat ssChallengeSize)
                = Inr (ssChallenge @ drop (unat ssChallengeSize) buf)"
    if "rawData = Some buf" and "ssChallengeSize \<le> ucast rawSize" for buf
  proof -
    have "unat ssChallengeSize \<le> unat rawSize"
      using that(2) r
      by (simp add: word_le_nat_alt unsigned_ucast_eq take_bit_eq_mod)
    then show ?thesis using assms(3) assms(4) that(1) by (simp add: memcpy_def)
  qed
  show ?thesis
    using assms(1) assms(2) trunc small fits copy
    by (auto simp: GetSecureStop_def call_def Let_def split: option.splits)
qed

theorem C10_size_query_witness:
  "GetSecureStop small_challenge_env ready id16 16 None 0
     = Inr (CDMi_SUCCESS, None, 3, call ready (Call_Drm_SecureStop_GenerateChallenge id16))
   \<and> GetSecureStop small_challenge_env ready id16 16 (Some [0, 0]) 2
     = Inr (CDMi_SUCCESS, Some [0, 0], 3, call ready (Call_Drm_SecureStop_GenerateChallenge id16))
   \<and> GetSecureStop small_challenge_env ready id16 16 (Some [0, 0, 0, 0]) 4
     = Inr (CDMi_SUCCESS, Some [7, 8, 9, 0], 3,
            call ready (Call_Drm_SecureStop_GenerateChallenge id16))"
proof -
  have sid: "copy_session_id id16 16 = Inr id16"
    by (simp add: copy_session_id_def DRM_ID_SIZE_def id16_def)
  have gen: "Drm_SecureStop_GenerateChallenge small_challenge_env
               (calls ready @ [Call_Drm_SecureStop_GenerateChallenge id16])
             = (DRM_SUCCESS, 3, [7, 8, 9])"
    by (simp add: small_challenge_env_def nominal_env_def)
  have len: "length [7, 8, 9 :: byte] = unat (3 :: 32 word)"
    by simp
  have b0: "\<forall>buf. (None :: byte list option) = Some buf \<longrightarrow> unat (0 :: 16 word) \<le> length buf"
    by simp
  have b2: "\<forall>buf. Some [0, 0 :: byte] = Some buf \<longrightarrow> unat (2 :: 16 word) \<le> length buf"
    by simp
  have b4: "\<forall>buf. Some [0, 0, 0, 0 :: byte] = Some buf \<longrightarrow> unat (4 :: 16 word) \<le> length buf"
    by simp
  show ?thesis
    using C10_size_query [OF sid gen len b0] C10_size_query [OF sid gen len b2]
      C10_size_query [OF sid gen len b4]
    by simp
qed

section \<open>Clock bootstrap\<close>

lemma redirect_loop_endless_aux:
  "redirect_loop e s c u = Some r \<Longrightarrow>
     e = endless_redirect_env \<longrightarrow> (c = 302 \<or> c = 301) \<longrightarrow> False"
proof (erule redirect_loop.raw_induct [rotated 1, where P = "\<lambda>e s c u r.
          e = endless_redirect_env \<longrightarrow> (c = 302 \<or> c = 301) \<longrightarrow> False"], goal_cases)
  case (1 f e' s' c' u' r')
  show ?case
  proof (intro impI)
    assume e: "e' = endless_redirect_env" and c: "c' = 302 \<or> c' = 301"
    have reply: "PRDY_HTTP_Client_GetSecureTimeUrl e' tr = (0, 302, ''u'')" for tr
      by (simp add: e endless_redirect_env_def nominal_env_def)
    from 1(2) c reply have "f e' (call s' (Call_GetSecureTimeUrl u')) 302 ''u'' = Some r'"
      by (auto split: if_splits)
    from 1(1) [OF this] e show False by simp
  qed
qed

lemma redirect_loop_endless:
  assumes "c = 302 \<or> c = 301"
  shows "redirect_loop endless_redirect_env s c u = None"
proof (cases "redirect_loop endless_redirect_env s c u")
  case None
  then show ?thesis .
next
  case (Some r)
  with redirect_loop_endless_aux [OF Some] assms show ?thesis by simp
qed

lemma InitSecureClock_endless: "InitSecureClock endless_redirect_env s = None"
proof -
  have "redirect_loop endless_redirect_env s' 302 u = None" for s' u
    by (rule redirect_loop_endless) simp
  then show ?thesis
    by (simp add: InitSecureClock_def endless_redirect_env_def nominal_env_def)
qed

lemma hop_count_call [simp]:
  "hop_count (calls (call s ev)) = hop_count (calls s) + (if is_hop ev then 1 else 0)"
  by (simp add: hop_count_def call_def)

subsection \<open>The loop against the petitions of the environment\<close>

lemma petitions_0: "petitions e s 0 = first_petition e s"
  by (simp add: petitions_def)

lemma petitions_Suc: "petitions e s (Suc k) = petition e (petitions e s k)"
  by (simp add: petitions_def)

text \<open>One redirected answer: the loop makes the next request and tests its answer.\<close>

lemma resume_redirected:
  assumes "redirected x"
  shows "resume e x = resume e (petition e x)"
proof -
  obtain s petRC c u where x: "x = (s, petRC, c, u)" by (cases x)
  from assms x have rc: "petRC = 0" and c: "c = 302 \<or> c = 301"
    by (simp_all add: redirected_def)
  from c have not200: "c \<noteq> 200" by auto
  obtain petRC' c' u' where
    reply: "PRDY_HTTP_Client_GetSecureTimeUrl e (calls (call s (Call_GetSecureTimeUrl u)))
              = (petRC', c', u')"
    by (cases "PRDY_HTTP_Client_GetSecureTimeUrl e (calls (call s (Call_GetSecureTimeUrl u)))")
  have "resume e x = redirect_loop e s c u"
    using x rc by (simp add: resume_def)
  also have "\<dots> = (if petRC' \<noteq> 0 then Some (Inl petRC', call s (Call_GetSecureTimeUrl u))
                   else redirect_loop e (call s (Call_GetSecureTimeUrl u)) c' u')"
    using c not200 reply by (subst redirect_loop.simps) simp
  also have "\<dots> = resume e (petition e x)"
    using x reply by (simp add: resume_def petition_def)
  finally show ?thesis .
qed

lemma resume_after:
  "\<forall>k<n. redirected ((petition e ^^ k) x) \<Longrightarrow> resume e x = resume e ((petition e ^^ n) x)"
proof (induction n arbitrary: x)
  case 0
  show ?case by simp
next
  case (Suc n)
  from Suc.prems have first: "redirected x" by force
  have "\<forall>k<n. redirected ((petition e ^^ k) (petition e x))"
  proof (intro allI impI)
    fix k assume "k < n"
    then have "Suc k < Suc n" by simp
    from Suc.prems [rule_format, OF this]
    show "redirected ((petition e ^^ k) (petition e x))"
      by (simp only: funpow_Suc_right o_apply)
  qed
  from Suc.IH [OF this]
  have "resume e (petition e x) = resume e ((petition e ^^ n) (petition e x))" .
  with resume_redirected [OF first, of e] show ?case
    by (simp only: funpow_Suc_right o_apply)
qed

text \<open>A loop that returns has met an answer that is no redirection.\<close>

lemma redirect_loop_stops:
  "redirect_loop e s c u = Some r \<Longrightarrow> \<exists>k. \<not> redirected ((petition e ^^ k) (s, 0, c, u))"
proof (erule redirect_loop.raw_induct [rotated 1, where P = "\<lambda>e s c u r.
          \<exists>k. \<not> redirected ((petition e ^^ k) (s, 0, c, u))"], goal_cases)
  case (1 f e' s' c' u' r')
  show ?case
  proof (cases "c' = 302 \<or> c' = 301")
    case False
    then have "\<not> redirected ((petition e' ^^ 0) (s', 0, c', u'))"
      by (simp add: redirected_def)
    then show ?thesis by blast
  next
    case True
    let ?s1 = "call s' (Call_GetSecureTimeUrl u')"
    obtain petRC c'' u'' where
      reply: "PRDY_HTTP_Client_GetSecureTimeUrl e' (calls ?s1) = (petRC, c'', u'')"
      by (cases "PRDY_HTTP_Client_GetSecureTimeUrl e' (calls ?s1)")
    have next_answer: "petition e' (s', 0, c', u') = (?s1, petRC, c'', u'')"
      using reply by (simp add: petition_def)
    show ?thesis
    proof (cases "petRC = 0")
      case False
      then have "\<not> redirected ((petition e' ^^ Suc 0) (s', 0, c', u'))"
        using next_answer by (simp add: redirected_def)
      then show ?thesis by blast
    next
      case zero: True
      with 1(2) True reply have "f e' ?s1 c'' u'' = Some r'" by (auto split: if_splits)
      from 1(1) [OF this] obtain k where
        k: "\<not> redirected ((petition e' ^^ k) (?s1, 0, c'', u''))" by blast
      have eq: "(petition e' ^^ Suc k) (s', 0, c', u') = (petition e' ^^ k) (?s1, 0, c'', u'')"
        by (simp only: funpow_Suc_right o_apply next_answer zero)
      have "\<not> redirected ((petition e' ^^ Suc k) (s', 0, c', u'))"
        unfolding eq by (rule k)
      then show ?thesis by blast
    qed
  qed
qed

lemma resume_stops:
  assumes "resume e x = Some r"
  shows "\<exists>k. \<not> redirected ((petition e ^^ k) x)"
proof -
  obtain s petRC c u where x: "x = (s, petRC, c, u)" by (cases x)
  show ?thesis
  proof (cases "petRC = 0")
    case False
    with x have "\<not> redirected ((petition e ^^ 0) x)" by (simp add: redirected_def)
    then show ?thesis by blast
  next
    case True
    with assms x have "redirect_loop e s c u = Some r" by (simp add: resume_def)
    from redirect_loop_stops [OF this] x True show ?thesis by simp
  qed
qed

lemma redirected_snd:
  "redirected x \<longleftrightarrow> fst (snd x) = 0 \<and> (fst (snd (snd x)) = 302 \<or> fst (snd (snd x)) = 301)"
  by (cases x) (simp add: redirected_def)

lemma hop_count_petition:
  "hop_count (calls (fst (petition e x))) = hop_count (calls (fst x)) + 1"
  by (cases x) (simp add: petition_def)

lemma hop_count_petitions:
  "hop_count (calls (fst (petitions e s n))) = hop_count (calls s) + n"
proof (induction n)
  case 0
  show ?case by (simp add: petitions_0 first_petition_def Let_def)
next
  case (Suc n)
  then show ?case by (simp add: petitions_Suc hop_count_petition)
qed

text \<open>
  \<open>InitSecureClock\<close> once the challenge is generated and the URL buffer allocated:
  the first petition, the loop, and the post of the challenge.
\<close>

lemma InitSecureClock_resume:
  assumes "Drm_SecureTime_GenerateChallenge e
             (calls s @ [Call_Drm_SecureTime_GenerateChallenge]) = (dr, pbChallenge)"
    and "\<not> DRM_FAILED dr"
    and "NEXUS_Memory_Allocate e
           (calls s @ [Call_Drm_SecureTime_GenerateChallenge,
                       Call_NEXUS_Memory_Allocate MAX_URL_LENGTH]) = 0"
  shows "InitSecureClock e s =
           (case resume e (first_petition e s) of
              None \<Rightarrow> None
            | Some (Inl rc, s4) \<Rightarrow> Some (rc, s4)
            | Some (Inr url, s4) \<Rightarrow> Some (post_time_challenge e s4 pbChallenge url))"
  using assms
  by (simp add: InitSecureClock_def first_petition_def resume_def call_def Let_def
      split: prod.splits)

lemma chain_petitions:
  assumes "hop_count (calls s) = 0"
  shows "snd (petitions (redirect_chain n) s k) = (0, if k < n then 302 else 200, ''u'')"
proof (cases k)
  case 0
  then show ?thesis
    by (simp add: petitions_0 first_petition_def redirect_chain_def Let_def)
next
  case (Suc j)
  have "hop_count (calls (fst (petitions (redirect_chain n) s j))) = j"
    using assms by (simp add: hop_count_petitions)
  then show ?thesis
    using Suc
    by (cases "petitions (redirect_chain n) s j")
      (simp add: petitions_Suc petition_def redirect_chain_def)
qed

lemma endless_petitions:
  "snd (petitions endless_redirect_env s k) = (0, 302, ''u'')"
proof (cases k)
  case 0
  then show ?thesis
    by (simp add: petitions_0 first_petition_def endless_redirect_env_def Let_def)
next
  case (Suc j)
  then show ?thesis
    by (cases "petitions endless_redirect_env s j")
      (simp add: petitions_Suc petition_def endless_redirect_env_def)
qed

text \<open>
  C2. The claim: a chain of petitions that keeps answering 301/302 makes the bootstrap
  abort with a failure after a bounded number of hops. The loop has no counter: in the
  network whose every answer is 302, \<open>InitSecureClock\<close> does not return at all.
\<close>

theorem C2_endless_redirects_never_return:
  "InitSecureClock endless_redirect_env fresh = None"
  by (rule InitSecureClock_endless)

text \<open>
  C2 as amended. \<open>InitSecureClock\<close> puts no bound on the redirections it follows. For
  every environment in which the challenge is generated and the URL buffer allocated,
  and every \<open>n\<close>: when the first \<open>n\<close> petitions are answered with 301 or 302, the loop
  has followed \<open>n\<close> redirections at the answer after them, and that answer decides. A
  failed request ends \<open>InitSecureClock\<close> with its return code, an answer 200 with the
  post of the challenge to the URL of that answer, any status other than 200, 301 and
  302 with \<open>-1\<close>. \<open>InitSecureClock\<close> fails to return exactly when every petition is
  answered with a redirection.
\<close>

theorem C2_redirects_followed_without_bound:
  assumes "Drm_SecureTime_GenerateChallenge e
             (calls s @ [Call_Drm_SecureTime_GenerateChallenge]) = (dr, pbChallenge)"
    and "\<not> DRM_FAILED dr"
    and "NEXUS_Memory_Allocate e
           (calls s @ [Call_Drm_SecureTime_GenerateChallenge,
                       Call_NEXUS_Memory_Allocate MAX_URL_LENGTH]) = 0"
  shows "(\<forall>n. (\<forall>k<n. redirected (petitions e s k)) \<longrightarrow>
            (case petitions e s n of
               (sn, petRC, petRespCode, url) \<Rightarrow>
                 hop_count (calls sn) = hop_count (calls s) + n
                 \<and> (petRC \<noteq> 0 \<longrightarrow> InitSecureClock e s = Some (petRC, sn))
                 \<and> (petRC = 0 \<and> petRespCode = 200 \<longrightarrow>
                      InitSecureClock e s
                        = Some (post_time_challenge e sn pbChallenge url))
                 \<and> (petRC = 0 \<and> petRespCode \<noteq> 200 \<and> petRespCode \<noteq> 302
                      \<and> petRespCode \<noteq> 301 \<longrightarrow>
                      InitSecureClock e s = Some (- 1, sn))))
         \<and> (InitSecureClock e s = None \<longleftrightarrow> (\<forall>k. redirected (petitions e s k)))"
proof -
  note run = InitSecureClock_resume [OF assms]
  have decided: "case petitions e s n of
               (sn, petRC, petRespCode, url) \<Rightarrow>
                 hop_count (calls sn) = hop_count (calls s) + n
                 \<and> (petRC \<noteq> 0 \<longrightarrow> InitSecureClock e s = Some (petRC, sn))
                 \<and> (petRC = 0 \<and> petRespCode = 200 \<longrightarrow>
                      InitSecureClock e s
                        = Some (post_time_challenge e sn pbChallenge url))
                 \<and> (petRC = 0 \<and> petRespCode \<noteq> 200 \<and> petRespCode \<noteq> 302
                      \<and> petRespCode \<noteq> 301 \<longrightarrow>
                      InitSecureClock e s = Some (- 1, sn))"
    if followed: "\<forall>k<n. redirected (petitions e s k)" for n
  proof -
    obtain sn petRC c u where answer: "petitions e s n = (sn, petRC, c, u)"
      by (cases "petitions e s n")
    have hops: "hop_count (calls sn) = hop_count (calls s) + n"
      using hop_count_petitions [of e s n] answer by simp
    from followed have "\<forall>k<n. redirected ((petition e ^^ k) (first_petition e s))"
      by (simp add: petitions_def)
    from resume_after [OF this]
    have there: "resume e (first_petition e s) = resume e (sn, petRC, c, u)"
      using answer by (simp add: petitions_def)
    have failed: "InitSecureClock e s = Some (petRC, sn)" if "petRC \<noteq> 0"
      using that run there by (simp add: resume_def)
    have ok: "InitSecureClock e s = Some (post_time_challenge e sn pbChallenge u)"
      if "petRC = 0" "c = 200"
    proof -
      have "redirect_loop e sn 200 u = Some (Inr u, sn)"
        by (subst redirect_loop.simps) simp
      with that run there show ?thesis by (simp add: resume_def)
    qed
    have other: "InitSecureClock e s = Some (- 1, sn)"
      if "petRC = 0" "c \<noteq> 200" "c \<noteq> 302" "c \<noteq> 301"
    proof -
      have "redirect_loop e sn c u = Some (Inl (- 1), sn)"
        using that by (subst redirect_loop.simps) simp
      with that run there show ?thesis by (simp add: resume_def)
    qed
    from answer hops failed ok other show ?thesis by simp
  qed
  have never: "InitSecureClock e s = None" if "\<forall>k. redirected (petitions e s k)"
  proof (cases "resume e (first_petition e s)")
    case None
    with run show ?thesis by simp
  next
    case (Some r)
    from resume_stops [OF Some] that show ?thesis by (simp add: petitions_def)
  qed
  have returns: "InitSecureClock e s \<noteq> None" if "\<not> (\<forall>k. redirected (petitions e s k))"
  proof -
    from that have "\<exists>n. \<not> redirected (petitions e s n)" by simp
    then obtain n where
      n: "\<not> redirected (petitions e s n)" "\<forall>k<n. redirected (petitions e s k)"
      using exists_least_iff [of "\<lambda>n. \<not> redirected (petitions e s n)"] by auto
    from decided [OF n(2)] n(1) show ?thesis
      by (cases "petitions e s n") (auto simp: redirected_def)
  qed
  from decided never returns show ?thesis by blast
qed

theorem C2_redirects_followed_without_bound_witness:
  "(\<exists>sn. petitions (redirect_chain 3) fresh 3 = (sn, 0, 200, ''u'')
       \<and> hop_count (calls sn) = 3
       \<and> InitSecureClock (redirect_chain 3) fresh
           = Some (post_time_challenge (redirect_chain 3) sn [] ''u''))
   \<and> (\<exists>sn. petitions failing_hop_env fresh 1 = (sn, 7, 0, [])
       \<and> hop_count (calls sn) = 1
       \<and> InitSecureClock failing_hop_env fresh = Some (7, sn))
   \<and> (\<exists>sn. petitions not_found_env fresh 1 = (sn, 0, 404, ''v'')
       \<and> hop_count (calls sn) = 1
       \<and> InitSecureClock not_found_env fresh = Some (- 1, sn))
   \<and> InitSecureClock endless_redirect_env fresh = None"
proof -
  have h0: "hop_count (calls fresh) = 0" by (simp add: fresh_def hop_count_def)
  have gen: "Drm_SecureTime_GenerateChallenge (redirect_chain 3)
               (calls fresh @ [Call_Drm_SecureTime_GenerateChallenge]) = (DRM_SUCCESS, [])"
       "Drm_SecureTime_GenerateChallenge failing_hop_env
               (calls fresh @ [Call_Drm_SecureTime_GenerateChallenge]) = (DRM_SUCCESS, [])"
       "Drm_SecureTime_GenerateChallenge not_found_env
               (calls fresh @ [Call_Drm_SecureTime_GenerateChallenge]) = (DRM_SUCCESS, [])"
       "Drm_SecureTime_GenerateChallenge endless_redirect_env
               (calls fresh @ [Call_Drm_SecureTime_GenerateChallenge]) = (DRM_SUCCESS, [])"
    by (simp_all add: redirect_chain_def failing_hop_env_def not_found_env_def
        endless_redirect_env_def nominal_env_def)
  have generated: "\<not> DRM_FAILED DRM_SUCCESS" by simp
  have alloc: "NEXUS_Memory_Allocate (redirect_chain 3)
           (calls fresh @ [Call_Drm_SecureTime_GenerateChallenge,
                           Call_NEXUS_Memory_Allocate MAX_URL_LENGTH]) = 0"
       "NEXUS_Memory_Allocate failing_hop_env
           (calls fresh @ [Call_Drm_SecureTime_GenerateChallenge,
                           Call_NEXUS_Memory_Allocate MAX_URL_LENGTH]) = 0"
       "NEXUS_Memory_Allocate not_found_env
           (calls fresh @ [Call_Drm_SecureTime_GenerateChallenge,
                           Call_NEXUS_Memory_Allocate MAX_URL_LENGTH]) = 0"
       "NEXUS_Memory_Allocate endless_redirect_env
           (calls fresh @ [Call_Drm_SecureTime_GenerateChallenge,
                           Call_NEXUS_Memory_Allocate MAX_URL_LENGTH]) = 0"
    by (simp_all add: redirect_chain_def failing_hop_env_def not_found_env_def
        endless_redirect_env_def nominal_env_def)
  have chain: "\<exists>sn. petitions (redirect_chain 3) fresh 3 = (sn, 0, 200, ''u'')
       \<and> hop_count (calls sn) = 3
       \<and> InitSecureClock (redirect_chain 3) fresh
           = Some (post_time_challenge (redirect_chain 3) sn [] ''u'')"
  proof -
    have followed: "\<forall>k<3. redirected (petitions (redirect_chain 3) fresh k)"
      by (simp add: redirected_snd chain_petitions [OF h0])
    have last: "snd (petitions (redirect_chain 3) fresh 3) = (0, 200, ''u'')"
      using chain_petitions [OF h0, of 3 3] by simp
    from C2_redirects_followed_without_bound [OF gen(1) generated alloc(1),
        THEN conjunct1, THEN spec, THEN mp, OF followed] last h0
    show ?thesis
      by (cases "petitions (redirect_chain 3) fresh 3") simp
  qed
  have first_failing: "\<forall>k<1. redirected (petitions failing_hop_env fresh k)"
    by (simp add: petitions_0 first_petition_def failing_hop_env_def redirected_def Let_def)
  have failing: "\<exists>sn. petitions failing_hop_env fresh 1 = (sn, 7, 0, [])
       \<and> hop_count (calls sn) = 1
       \<and> InitSecureClock failing_hop_env fresh = Some (7, sn)"
  proof -
    have last: "snd (petitions failing_hop_env fresh 1) = (7, 0, [])"
      by (simp add: petitions_0 petitions_Suc first_petition_def petition_def
          failing_hop_env_def Let_def)
    from C2_redirects_followed_without_bound [OF gen(2) generated alloc(2),
        THEN conjunct1, THEN spec, THEN mp, OF first_failing] last h0
    show ?thesis
      by (cases "petitions failing_hop_env fresh 1") simp
  qed
  have first_not_found: "\<forall>k<1. redirected (petitions not_found_env fresh k)"
    by (simp add: petitions_0 first_petition_def not_found_env_def redirected_def Let_def)
  have not_found: "\<exists>sn. petitions not_found_env fresh 1 = (sn, 0, 404, ''v'')
       \<and> hop_count (calls sn) = 1
       \<and> InitSecureClock not_found_env fresh = Some (- 1, sn)"
  proof -
    have last: "snd (petitions not_found_env fresh 1) = (0, 404, ''v'')"
      by (simp add: petitions_0 petitions_Suc first_petition_def petition_def
          not_found_env_def Let_def)
    from C2_redirects_followed_without_bound [OF gen(3) generated alloc(3),
        THEN conjunct1, THEN spec, THEN mp, OF first_not_found] last h0
    show ?thesis
      by (cases "petitions not_found_env fresh 1") simp
  qed
  have "\<forall>k. redirected (petitions endless_redirect_env fresh k)"
    by (simp add: redirected_snd endless_petitions)
  with C2_redirects_followed_without_bound [OF gen(4) generated alloc(4), THEN conjunct2]
  have endless: "InitSecureClock endless_redirect_env fresh = None" by simp
  from chain failing not_found endless show ?thesis by blast
qed

section \<open>System creation\<close>

declare fread_loop.simps [simp del]

lemmas after_clock_defs =
  resize_license_store_def setup_revocation_def set_decryption_mode_def
  ErrorExit_def call_def Let_def

lemmas run_defs =
  CreateMediaKeySession_def InitializeSystem_def DeinitializeSystem_def CreateSystemExt_def
  enter_Drm_Initialize_def setup_clock_def resize_license_store_def setup_revocation_def
  set_decryption_mode_def LoadRevocationList_def ErrorExit_def InitSecureClock_def
  post_time_challenge_def system_time_of_def DRM_DEFAULT_REVOCATION_LIST_FILE_def
  MAX_URL_LENGTH_def MAX_TIME_CHALLENGE_RESPONSE_LENGTH_def written_inside_def
  written_past_def call_def Let_def

lemmas env_defs =
  nominal_env_def no_secure_clock_env_def rejected_revocation_env_def
  no_memory_revocation_env_def redirect_chain_def endless_redirect_env_def
  failing_hop_env_def not_found_env_def gmtime_first_day_def
  fresh_def ready_def platform_up_def

subsection \<open>The revocation list\<close>

text \<open>
  When the stream delivers as many bytes as \<open>ftell\<close> reported (files below 4 GiB),
  the read loop copies the whole file into the zeroed block and writes nothing past
  its end. The loop only ever adds writes past the block to the history.
\<close>

lemma chunk_empty: "length (take 512 bytes) \<le> 0 \<longleftrightarrow> bytes = []"
  by (cases bytes) simp_all

lemma fread_loop_Nil: "fread_loop [] revBuf currSize s = (revBuf, s)"
  by (subst fread_loop.simps) simp

lemma fread_loop_step:
  assumes "bytes \<noteq> []"
  shows "fread_loop bytes revBuf currSize s
           = fread_loop (drop 512 bytes)
               (written_inside revBuf currSize (take 512 bytes))
               ((currSize + length (take 512 bytes)) mod 2 ^ 32)
               (if written_past revBuf currSize (take 512 bytes) = [] then s
                else call s (Write_past_revBuf (currSize - length revBuf)
                               (written_past revBuf currSize (take 512 bytes))))"
  using assms by (subst fread_loop.simps) (simp only: chunk_empty if_False)

lemma fread_loop_reads_file:
  "length pre + length bytes < 2 ^ 32 \<Longrightarrow>
     fread_loop bytes (pre @ replicate (length bytes) 0) (length pre) s = (pre @ bytes, s)"
proof (induction "length bytes" arbitrary: bytes pre rule: less_induct)
  case less
  show ?case
  proof (cases "bytes = []")
    case True
    then show ?thesis by (simp add: fread_loop_Nil)
  next
    case False
    let ?chunk = "take 512 bytes"
    let ?revBuf = "pre @ replicate (length bytes) 0"
    have smaller: "length (drop 512 bytes) < length bytes" using False by simp
    have len: "length (pre @ ?chunk) + length (drop 512 bytes) < 2 ^ 32"
      using less.prems by simp
    have buf: "written_inside ?revBuf (length pre) ?chunk
               = (pre @ ?chunk) @ replicate (length (drop 512 bytes)) 0"
      by (simp add: written_inside_def min_def)
    have past: "written_past ?revBuf (length pre) ?chunk = []"
      by (simp add: written_past_def)
    have cur: "(length pre + length ?chunk) mod 2 ^ 32 = length (pre @ ?chunk)"
      using less.prems by simp
    from less.hyps [OF smaller len]
    have IH: "fread_loop (drop 512 bytes)
                ((pre @ ?chunk) @ replicate (length (drop 512 bytes)) 0)
                (length (pre @ ?chunk)) s = ((pre @ ?chunk) @ drop 512 bytes, s)" .
    have step: "fread_loop bytes ?revBuf (length pre) s
                  = fread_loop (drop 512 bytes)
                      (written_inside ?revBuf (length pre) ?chunk)
                      ((length pre + length ?chunk) mod 2 ^ 32) s"
      by (simp add: fread_loop_step [OF False] past)
    have "fread_loop bytes ?revBuf (length pre) s = ((pre @ ?chunk) @ drop 512 bytes, s)"
      by (simp only: step buf cur IH)
    then show ?thesis by simp
  qed
qed

text \<open>
  A file of which \<open>ftell\<close> reports one byte and \<open>fread\<close> delivers two: the second
  byte is written past the end of \<open>revBuf\<close>, and \<open>Drm_Revocation_StorePackage\<close> is
  handed the block with the size that \<open>ftell\<close> gave.
\<close>

lemma fread_loop_overrun:
  "fread_loop [0x3C, 0x3E] [0] 0 s = ([0x3C], call s (Write_past_revBuf 0 [0x3E]))"
  by (simp add: fread_loop.simps written_inside_def written_past_def)

lemma LoadRevocationList_overrun:
  assumes "fopen_rb e (calls s @ [Call_fopen f]) = Some (1, [0x3C, 0x3E])"
    and "BKNI_Malloc e (calls s @ [Call_fopen f, Call_BKNI_Malloc 1])"
  shows "calls (snd (LoadRevocationList e s f))
         = calls s @ [Call_fopen f, Call_BKNI_Malloc 1, Write_past_revBuf 0 [0x3E],
                      Call_Drm_Revocation_StorePackage [0x3C] 1]"
  using assms
  by (simp add: LoadRevocationList_def fread_loop_overrun call_def Let_def)

lemma fread_loop_calls:
  "\<exists>evs. snd (fread_loop bytes revBuf currSize s) = s\<lparr>calls := calls s @ evs\<rparr>
         \<and> (\<forall>ev\<in>set evs. \<not> is_clock_call ev)"
proof (induction bytes revBuf currSize s rule: fread_loop.induct)
  case (1 bytes revBuf currSize s)
  show ?case
  proof (cases "bytes = []")
    case True
    then have "snd (fread_loop bytes revBuf currSize s) = s\<lparr>calls := calls s @ []\<rparr>"
      by (simp add: fread_loop_Nil)
    then show ?thesis by fastforce
  next
    case nonempty: False
    then have False: "\<not> length (take 512 bytes) \<le> 0"
      using chunk_empty [of bytes] by blast
    let ?s' = "if written_past revBuf currSize (take 512 bytes) = [] then s
               else call s (Write_past_revBuf (currSize - length revBuf)
                              (written_past revBuf currSize (take 512 bytes)))"
    obtain evs0 where s': "?s' = s\<lparr>calls := calls s @ evs0\<rparr>"
      "\<forall>ev\<in>set evs0. \<not> is_clock_call ev"
    proof (cases "written_past revBuf currSize (take 512 bytes) = []")
      case True
      then have "?s' = s\<lparr>calls := calls s @ []\<rparr>" by simp
      then show ?thesis using that by fastforce
    next
      case False
      then have "?s' = s\<lparr>calls := calls s @ [Write_past_revBuf (currSize - length revBuf)
                              (written_past revBuf currSize (take 512 bytes))]\<rparr>"
        by (simp add: call_def)
      then show ?thesis using that by fastforce
    qed
    from "1.IH" [OF False] obtain evs where
      rest: "snd (fread_loop (drop 512 bytes)
                    (written_inside revBuf currSize (take 512 bytes))
                    ((currSize + length (take 512 bytes)) mod 2 ^ 32) ?s')
             = ?s'\<lparr>calls := calls ?s' @ evs\<rparr>"
        "\<forall>ev\<in>set evs. \<not> is_clock_call ev" by blast
    have "snd (fread_loop bytes revBuf currSize s) = s\<lparr>calls := calls s @ (evs0 @ evs)\<rparr>"
      using rest(1) s'(1) by (simp add: fread_loop_step [OF nonempty])
    moreover have "\<forall>ev\<in>set (evs0 @ evs). \<not> is_clock_call ev"
      using s'(2) rest(2) by auto
    ultimately show ?thesis by blast
  qed
qed

lemma LoadRevocationList_calls:
  assumes "LoadRevocationList e s f = (loaded, s')"
  shows "\<exists>evs. calls s' = calls s @ evs \<and> (\<forall>ev\<in>set evs. \<not> is_clock_call ev)"
proof (cases "fopen_rb e (calls (call s (Call_fopen f)))")
  case None
  with assms show ?thesis by (auto simp: LoadRevocationList_def call_def Let_def)
next
  case (Some opened)
  obtain fileSize bytes where opened: "opened = (fileSize, bytes)" by (cases opened)
  let ?s2 = "call (call s (Call_fopen f)) (Call_BKNI_Malloc fileSize)"
  show ?thesis
  proof (cases "BKNI_Malloc e (calls ?s2)")
    case False
    with assms Some opened show ?thesis
      by (auto simp: LoadRevocationList_def call_def Let_def)
  next
    case True
    obtain revBuf s2' where
      rd: "fread_loop bytes (replicate fileSize 0) 0 ?s2 = (revBuf, s2')"
      by (cases "fread_loop bytes (replicate fileSize 0) 0 ?s2")
    from fread_loop_calls [of bytes "replicate fileSize 0" 0 ?s2] rd obtain evs where
      evs: "s2' = ?s2\<lparr>calls := calls ?s2 @ evs\<rparr>" "\<forall>ev\<in>set evs. \<not> is_clock_call ev"
      by auto
    have "s' = call s2' (Call_Drm_Revocation_StorePackage revBuf fileSize)"
      using assms Some opened True rd
      by (auto simp: LoadRevocationList_def Let_def split: if_splits)
    then have "calls s' = calls s @ (Call_fopen f # Call_BKNI_Malloc fileSize # evs
                 @ [Call_Drm_Revocation_StorePackage revBuf fileSize])"
      using evs(1) by (simp add: call_def)
    moreover have "\<forall>ev\<in>set (Call_fopen f # Call_BKNI_Malloc fileSize # evs
                 @ [Call_Drm_Revocation_StorePackage revBuf fileSize]). \<not> is_clock_call ev"
      using evs(2) by auto
    ultimately show ?thesis by blast
  qed
qed

text \<open>
  \<open>LoadRevocationList\<close> fails exactly when the file opens and either the block cannot
  be allocated or the SDK rejects the package; a failed or short \<open>fread\<close> is not
  noticed.
\<close>

lemma LoadRevocationList_False_iff:
  "fst (LoadRevocationList e s f) = False \<longleftrightarrow>
     (\<exists>fileSize bytes.
        fopen_rb e (calls s @ [Call_fopen f]) = Some (fileSize, bytes)
        \<and> (\<not> BKNI_Malloc e (calls s @ [Call_fopen f, Call_BKNI_Malloc fileSize])
            \<or> (case fread_loop bytes (replicate fileSize 0) 0
                       (call (call s (Call_fopen f)) (Call_BKNI_Malloc fileSize)) of
                  (revBuf, s2) \<Rightarrow>
                    DRM_FAILED (Drm_Revocation_StorePackage e
                      (calls s2 @ [Call_Drm_Revocation_StorePackage revBuf fileSize])))))"
  by (auto simp: LoadRevocationList_def call_def Let_def split: option.splits prod.splits)

text \<open>
  Whenever \<open>LoadRevocationList\<close> returns false, the revocation block jumps to
  \<open>ErrorExit\<close> with the \<open>dr\<close> of the successful \<open>Drm_Revocation_SetBuffer\<close>, and
  \<open>CreateSystemExt\<close> ends there with \<open>CDMi_SUCCESS\<close> and the object as
  \<open>LoadRevocationList\<close> left it.
\<close>

lemma setup_revocation_load_failure:
  assumes "DRM_REVOCATION_IsRevocationSupported e"
    and "Oem_MemAlloc e (calls s @ [Call_Oem_MemAlloc RevocationBuffer]) = Some b"
    and "\<not> DRM_FAILED (Drm_Revocation_SetBuffer e
               (calls s @ [Call_Oem_MemAlloc RevocationBuffer, Call_Drm_Revocation_SetBuffer]))"
    and "LoadRevocationList e
           (s\<lparr> m_pbRevocationBuffer := Some b,
                calls := calls s @ [Call_Oem_MemAlloc RevocationBuffer,
                                    Call_Drm_Revocation_SetBuffer] \<rparr>)
           DRM_DEFAULT_REVOCATION_LIST_FILE = (False, s')"
  shows "setup_revocation e s = (CDMi_SUCCESS, s')"
  using assms by (simp add: setup_revocation_def ErrorExit_def call_def Let_def)

text \<open>
  C3. The claim: when the revocation list file exists and applying it fails,
  \<open>CreateSystemExt\<close> reports a failure. Here the file holds two bytes and
  \<open>Drm_Revocation_StorePackage\<close> answers \<open>DRM_E_FAIL\<close>: \<open>LoadRevocationList\<close> returns
  false, and \<open>CreateSystemExt\<close> returns \<open>CDMi_SUCCESS\<close>; the decryption mode is never
  set.
\<close>

theorem C3_rejected_revocation_list_reported_as_success:
  "LoadRevocationList rejected_revocation_env
     (platform_up\<lparr> m_pbOpaqueBuffer := Some 3, m_pbRevocationBuffer := Some 3,
                   m_poAppContext := Some 2,
                   calls := [Call_new_DRM_APP_CONTEXT, Call_Oem_MemAlloc OpaqueBuffer,
                             Call_Drm_Initialize 2 ''/p/drmstore'',
                             Call_Drm_SecureTime_GetValue,
                             Call_Drm_ResizeInMemoryLicenseStore,
                             Call_Oem_MemAlloc RevocationBuffer,
                             Call_Drm_Revocation_SetBuffer] \<rparr>)
     DRM_DEFAULT_REVOCATION_LIST_FILE
   = (False,
      platform_up\<lparr> m_pbOpaqueBuffer := Some 3, m_pbRevocationBuffer := Some 3,
                    m_poAppContext := Some 2,
                    calls := [Call_new_DRM_APP_CONTEXT, Call_Oem_MemAlloc OpaqueBuffer,
                              Call_Drm_Initialize 2 ''/p/drmstore'',
                              Call_Drm_SecureTime_GetValue,
                              Call_Drm_ResizeInMemoryLicenseStore,
                              Call_Oem_MemAlloc RevocationBuffer,
                              Call_Drm_Revocation_SetBuffer,
                              Call_fopen ''/tmp/revpackage.xml'', Call_BKNI_Malloc 2,
                              Call_Drm_Revocation_StorePackage [0x3C, 0x3E] 2] \<rparr>)
   \<and> CreateSystemExt rejected_revocation_env platform_up
     = Some (CDMi_SUCCESS,
             platform_up\<lparr> m_pbOpaqueBuffer := Some 3, m_pbRevocationBuffer := Some 3,
                           m_poAppContext := Some 2,
                           calls := [Call_new_DRM_APP_CONTEXT, Call_Oem_MemAlloc OpaqueBuffer,
                                     Call_Drm_Initialize 2 ''/p/drmstore'',
                                     Call_Drm_SecureTime_GetValue,
                                     Call_Drm_ResizeInMemoryLicenseStore,
                                     Call_Oem_MemAlloc RevocationBuffer,
                                     Call_Drm_Revocation_SetBuffer,
                                     Call_fopen ''/tmp/revpackage.xml'', Call_BKNI_Malloc 2,
                                     Call_Drm_Revocation_StorePackage [0x3C, 0x3E] 2] \<rparr>)"
  by (simp add: run_defs env_defs fread_loop.simps)

subsection \<open>Failure and the application context\<close>

lemma ErrorExit_calls: "ErrorExit dr s = (cr, s') \<Longrightarrow> calls s' = calls s"
  by (auto simp: ErrorExit_def split: if_splits)

lemma ErrorExit_releases:
  "ErrorExit dr s = (cr, s') \<Longrightarrow> cr \<noteq> CDMi_SUCCESS \<Longrightarrow> m_poAppContext s' = None"
  by (auto simp: ErrorExit_def split: if_splits)

lemma resize_license_store_releases:
  assumes "resize_license_store e s = (cr, s')" and "cr \<noteq> CDMi_SUCCESS"
  shows "m_poAppContext s' = None"
  using assms by (auto simp: after_clock_defs split: if_splits option.splits prod.splits)

text \<open>
  A result other than \<open>CDMi_SUCCESS\<close> always comes with a released application
  context. The converse direction is what fails: a run can take a failure path and
  still end with \<open>CDMi_SUCCESS\<close> and a live context.
\<close>

lemma CreateSystemExt_failure_releases_context:
  assumes "CreateSystemExt e s = Some (cr, s')" and "cr \<noteq> CDMi_SUCCESS"
  shows "m_poAppContext s' = None"
  using assms
  by (auto simp: CreateSystemExt_def setup_clock_def Let_def
      split: if_splits option.splits prod.splits
      dest: ErrorExit_releases resize_license_store_releases)

text \<open>
  Likewise \<open>InitSecureClock\<close> returns 0 when the time authority's response is
  rejected: \<open>rc\<close> is not assigned on that path.
\<close>

lemma post_time_challenge_ignores_response:
  assumes "NEXUS_Memory_Allocate e
             (calls s @ [Call_NEXUS_Memory_Allocate MAX_TIME_CHALLENGE_RESPONSE_LENGTH]) = 0"
    and "fst (PRDY_HTTP_Client_SecureTimeChallengePost e
                (calls s @ [Call_NEXUS_Memory_Allocate MAX_TIME_CHALLENGE_RESPONSE_LENGTH,
                            Call_SecureTimeChallengePost u c])) = 0"
  shows "fst (post_time_challenge e s c u) = 0"
  using assms by (auto simp: post_time_challenge_def call_def Let_def split: prod.splits)

text \<open>
  C4. The claim: on every failure path of \<open>CreateSystemExt\<close>, the revocation
  failure included, no partially constructed context remains live. Here the revocation
  list file exists and the buffer for it cannot be allocated: the run ends at
  \<open>ErrorExit\<close> before the decryption mode is set, returns \<open>CDMi_SUCCESS\<close> and keeps
  the application context.
\<close>

theorem C4_live_context_after_failed_revocation:
  "CreateSystemExt no_memory_revocation_env platform_up
     = Some (CDMi_SUCCESS,
             platform_up\<lparr> m_pbOpaqueBuffer := Some 3, m_pbRevocationBuffer := Some 3,
                           m_poAppContext := Some 2,
                           calls := [Call_new_DRM_APP_CONTEXT, Call_Oem_MemAlloc OpaqueBuffer,
                                     Call_Drm_Initialize 2 ''/p/drmstore'',
                                     Call_Drm_SecureTime_GetValue,
                                     Call_Drm_ResizeInMemoryLicenseStore,
                                     Call_Oem_MemAlloc RevocationBuffer,
                                     Call_Drm_Revocation_SetBuffer,
                                     Call_fopen ''/tmp/revpackage.xml'',
                                     Call_BKNI_Malloc 2] \<rparr>)"
  by (simp add: run_defs env_defs)

subsection \<open>The clock strategy\<close>

lemma set_decryption_mode_calls:
  assumes "set_decryption_mode e s = (cr, s')"
  shows "calls s' = calls s @ [Call_Drm_Content_SetProperty]"
  using assms by (auto simp: set_decryption_mode_def ErrorExit_def call_def Let_def
      split: if_splits)

lemma setup_revocation_calls:
  assumes "setup_revocation e s = (cr, s')"
  shows "\<exists>evs. calls s' = calls s @ evs \<and> (\<forall>ev\<in>set evs. \<not> is_clock_call ev)"
proof (cases "DRM_REVOCATION_IsRevocationSupported e")
  case False
  with assms set_decryption_mode_calls [of e s cr s'] show ?thesis
    by (simp add: setup_revocation_def)
next
  case True
  let ?s2 = "(call s (Call_Oem_MemAlloc RevocationBuffer))
               \<lparr>m_pbRevocationBuffer :=
                  Oem_MemAlloc e (calls (call s (Call_Oem_MemAlloc RevocationBuffer)))\<rparr>"
  let ?s3 = "call ?s2 Call_Drm_Revocation_SetBuffer"
  obtain loaded s4 where
    ld: "LoadRevocationList e ?s3 DRM_DEFAULT_REVOCATION_LIST_FILE = (loaded, s4)"
    by (cases "LoadRevocationList e ?s3 DRM_DEFAULT_REVOCATION_LIST_FILE")
  from LoadRevocationList_calls [OF ld] obtain evs where
    evs: "calls s4 = calls ?s3 @ evs" "\<forall>ev\<in>set evs. \<not> is_clock_call ev" by blast
  consider (early) "calls s' = calls ?s2 \<or> calls s' = calls ?s3"
    | (unloaded) "calls s' = calls s4"
    | (loaded) "set_decryption_mode e s4 = (cr, s')"
    using assms True ld
    by (auto simp: setup_revocation_def ErrorExit_def Let_def split: if_splits)
  then show ?thesis
  proof cases
    case early
    then show ?thesis by (auto simp: call_def)
  next
    case unloaded
    with evs show ?thesis by (auto simp: call_def)
  next
    case loaded
    from set_decryption_mode_calls [OF loaded] evs show ?thesis by (auto simp: call_def)
  qed
qed

lemma resize_license_store_calls:
  assumes "resize_license_store e s = (cr, s')"
  shows "\<exists>evs. calls s' = calls s @ evs \<and> (\<forall>ev\<in>set evs. \<not> is_clock_call ev)"
proof -
  let ?s1 = "call s Call_Drm_ResizeInMemoryLicenseStore"
  from assms consider (failed) "calls s' = calls ?s1"
    | (went_on) "setup_revocation e ?s1 = (cr, s')"
    by (auto simp: resize_license_store_def ErrorExit_def Let_def split: if_splits)
  then show ?thesis
  proof cases
    case failed
    then show ?thesis by (auto simp: call_def)
  next
    case went_on
    from setup_revocation_calls [OF went_on] show ?thesis by (auto simp: call_def)
  qed
qed

lemma redirect_loop_calls:
  "redirect_loop e s c u = Some rs \<Longrightarrow>
     \<exists>evs. calls (snd rs) = calls s @ evs \<and> (\<forall>ev\<in>set evs. \<not> is_clock_call ev)"
proof (erule redirect_loop.raw_induct [rotated 1, where P = "\<lambda>e s c u rs.
          \<exists>evs. calls (snd rs) = calls s @ evs \<and> (\<forall>ev\<in>set evs. \<not> is_clock_call ev)"],
       goal_cases)
  case (1 f e' s' c' u' rs')
  show ?case
  proof (cases "c' = 302 \<or> c' = 301")
    case False
    with 1(2) show ?thesis by (auto split: if_splits)
  next
    case True
    let ?s1 = "call s' (Call_GetSecureTimeUrl u')"
    obtain petRC code url where
      reply: "PRDY_HTTP_Client_GetSecureTimeUrl e' (calls ?s1) = (petRC, code, url)"
      by (cases "PRDY_HTTP_Client_GetSecureTimeUrl e' (calls ?s1)") auto
    show ?thesis
    proof (cases "petRC = 0")
      case False
      with 1(2) True reply have "rs' = (Inl petRC, ?s1)" by (auto split: if_splits)
      then show ?thesis by (simp add: call_def)
    next
      case zero: True
      with 1(2) True reply have "f e' ?s1 code url = Some rs'" by (auto split: if_splits)
      from 1(1) [OF this] obtain evs where
        "calls (snd rs') = calls ?s1 @ evs" "\<forall>ev\<in>set evs. \<not> is_clock_call ev" by blast
      then have "calls (snd rs') = calls s' @ (Call_GetSecureTimeUrl u' # evs)
                 \<and> (\<forall>ev\<in>set (Call_GetSecureTimeUrl u' # evs). \<not> is_clock_call ev)"
        by (simp add: call_def)
      then show ?thesis by blast
    qed
  qed
qed

lemma post_time_challenge_calls:
  assumes "post_time_challenge e s c u = (rc, s')"
  shows "\<exists>evs. calls s' = calls s @ evs \<and> (\<forall>ev\<in>set evs. \<not> is_clock_call ev)"
  using assms
  by (auto simp: post_time_challenge_def call_def Let_def split: if_splits prod.splits)

lemma InitSecureClock_calls:
  assumes "InitSecureClock e s = Some (rc, s')"
  shows "\<exists>evs. calls s' = calls s @ Call_Drm_SecureTime_GenerateChallenge # evs
               \<and> (\<forall>ev\<in>set evs. \<not> is_clock_call ev)"
proof -
  let ?s1 = "call s Call_Drm_SecureTime_GenerateChallenge"
  let ?s2 = "call ?s1 (Call_NEXUS_Memory_Allocate MAX_URL_LENGTH)"
  let ?s3 = "call ?s2 Call_GetForwardLinkUrl"
  obtain dr ch where gen: "Drm_SecureTime_GenerateChallenge e (calls ?s1) = (dr, ch)"
    by (cases "Drm_SecureTime_GenerateChallenge e (calls ?s1)") auto
  obtain petRC code url where
    fwd: "PRDY_HTTP_Client_GetForwardLinkUrl e (calls ?s3) = (petRC, code, url)"
    by (cases "PRDY_HTTP_Client_GetForwardLinkUrl e (calls ?s3)") auto
  consider (early) "s' = ?s1 \<or> s' = ?s2 \<or> s' = ?s3"
    | (err) rc' s4 where "redirect_loop e ?s3 code url = Some (Inl rc', s4)" "s' = s4"
    | (post) url' s4 where "redirect_loop e ?s3 code url = Some (Inr url', s4)"
        "post_time_challenge e s4 ch url' = (rc, s')"
    using assms gen fwd
    by (auto simp: InitSecureClock_def Let_def split: if_splits option.splits sum.splits)
  then show ?thesis
  proof cases
    case early
    then show ?thesis by (auto simp: call_def)
  next
    case err
    from redirect_loop_calls [OF err(1)] err(2) show ?thesis
      by (auto simp: call_def)
  next
    case post
    from redirect_loop_calls [OF post(1)] obtain evs where
      a: "calls s4 = calls ?s3 @ evs" "\<forall>ev\<in>set evs. \<not> is_clock_call ev" by auto
    from post_time_challenge_calls [OF post(2)] obtain evs' where
      b: "calls s' = calls s4 @ evs'" "\<forall>ev\<in>set evs'. \<not> is_clock_call ev" by auto
    from a b show ?thesis by (auto simp: call_def)
  qed
qed

text \<open>
  A redirect loop that ends in an error has a return code other than 0, and a post of
  the challenge that returns 0 has made its three calls: so \<open>InitSecureClock\<close>, once the
  challenge is generated, returns 0 only after the challenge is posted to the URL of
  the last petition and the response handed to \<open>Drm_SecureTime_ProcessResponse\<close>.
\<close>

lemma redirect_loop_Inl_nonzero:
  "redirect_loop e s c u = Some r \<Longrightarrow> \<forall>rc s'. r = (Inl rc, s') \<longrightarrow> rc \<noteq> 0"
proof (erule redirect_loop.raw_induct [rotated 1, where P = "\<lambda>e s c u r.
          \<forall>rc s'. r = (Inl rc, s') \<longrightarrow> rc \<noteq> 0"], goal_cases)
  case (1 f e' s' c' u' r')
  show ?case
  proof (cases "c' = 302 \<or> c' = 301")
    case False
    with 1(2) show ?thesis by (auto split: if_splits)
  next
    case True
    let ?s1 = "call s' (Call_GetSecureTimeUrl u')"
    obtain petRC c'' u'' where
      reply: "PRDY_HTTP_Client_GetSecureTimeUrl e' (calls ?s1) = (petRC, c'', u'')"
      by (cases "PRDY_HTTP_Client_GetSecureTimeUrl e' (calls ?s1)")
    show ?thesis
    proof (cases "petRC = 0")
      case False
      with 1(2) True reply have "r' = (Inl petRC, ?s1)" by (auto split: if_splits)
      with False show ?thesis by simp
    next
      case zero: True
      with 1(2) True reply have "f e' ?s1 c'' u'' = Some r'" by (auto split: if_splits)
      from 1(1) [OF this] show ?thesis .
    qed
  qed
qed

lemma post_time_challenge_zero:
  assumes "post_time_challenge e s ch url = (0, s')"
  shows "calls s' = calls s
           @ [Call_NEXUS_Memory_Allocate MAX_TIME_CHALLENGE_RESPONSE_LENGTH,
              Call_SecureTimeChallengePost url ch,
              Call_Drm_SecureTime_ProcessResponse
                (snd (PRDY_HTTP_Client_SecureTimeChallengePost e
                   (calls s @ [Call_NEXUS_Memory_Allocate MAX_TIME_CHALLENGE_RESPONSE_LENGTH,
                               Call_SecureTimeChallengePost url ch])))]"
  using assms
  by (auto simp: post_time_challenge_def call_def Let_def signed_eq_0_iff
      split: if_splits prod.splits)

lemma InitSecureClock_zero:
  assumes "InitSecureClock e s = Some (0, s')"
    and "Drm_SecureTime_GenerateChallenge e
           (calls s @ [Call_Drm_SecureTime_GenerateChallenge]) = (dr, ch)"
    and "\<not> DRM_FAILED dr"
  shows "\<exists>tr url.
           calls s' = calls s @ Call_Drm_SecureTime_GenerateChallenge # tr
             @ [Call_NEXUS_Memory_Allocate MAX_TIME_CHALLENGE_RESPONSE_LENGTH,
                Call_SecureTimeChallengePost url ch,
                Call_Drm_SecureTime_ProcessResponse
                  (snd (PRDY_HTTP_Client_SecureTimeChallengePost e
                     (calls s @ Call_Drm_SecureTime_GenerateChallenge # tr
                        @ [Call_NEXUS_Memory_Allocate MAX_TIME_CHALLENGE_RESPONSE_LENGTH,
                           Call_SecureTimeChallengePost url ch])))]"
proof -
  let ?s1 = "call s Call_Drm_SecureTime_GenerateChallenge"
  let ?s2 = "call ?s1 (Call_NEXUS_Memory_Allocate MAX_URL_LENGTH)"
  let ?s3 = "call ?s2 Call_GetForwardLinkUrl"
  have gen: "Drm_SecureTime_GenerateChallenge e (calls ?s1) = (dr, ch)"
    using assms(2) by (simp add: call_def)
  obtain petRC code url where
    fwd: "PRDY_HTTP_Client_GetForwardLinkUrl e (calls ?s3) = (petRC, code, url)"
    by (cases "PRDY_HTTP_Client_GetForwardLinkUrl e (calls ?s3)") auto
  from assms(1) gen assms(3) fwd obtain r where
    loop: "redirect_loop e ?s3 code url = Some r" and
    fin: "case r of (Inl rc, s4) \<Rightarrow> (rc, s4) = (0, s')
          | (Inr url', s4) \<Rightarrow> post_time_challenge e s4 ch url' = (0, s')"
    by (auto simp: InitSecureClock_def Let_def split: if_splits option.splits sum.splits)
  obtain x s4 where r: "r = (x, s4)" by (cases r)
  from redirect_loop_Inl_nonzero [OF loop] fin r obtain url' where
    x: "x = Inr url'" and post: "post_time_challenge e s4 ch url' = (0, s')"
    by (cases x) auto
  from redirect_loop_calls [OF loop] r obtain evs where
    evs: "calls s4 = calls ?s3 @ evs" by auto
  let ?tr = "Call_NEXUS_Memory_Allocate MAX_URL_LENGTH # Call_GetForwardLinkUrl # evs"
  have s4: "calls s4 = calls s @ Call_Drm_SecureTime_GenerateChallenge # ?tr"
    using evs by (simp add: call_def)
  from post_time_challenge_zero [OF post]
  have "calls s' = calls s @ Call_Drm_SecureTime_GenerateChallenge # ?tr
             @ [Call_NEXUS_Memory_Allocate MAX_TIME_CHALLENGE_RESPONSE_LENGTH,
                Call_SecureTimeChallengePost url' ch,
                Call_Drm_SecureTime_ProcessResponse
                  (snd (PRDY_HTTP_Client_SecureTimeChallengePost e
                     (calls s @ Call_Drm_SecureTime_GenerateChallenge # ?tr
                        @ [Call_NEXUS_Memory_Allocate MAX_TIME_CHALLENGE_RESPONSE_LENGTH,
                           Call_SecureTimeChallengePost url' ch])))]"
    by (simp add: s4)
  then show ?thesis by blast
qed

text \<open>
  C7. A run of \<open>CreateSystemExt\<close> in which \<open>Drm_Initialize\<close> succeeds, observed
  through the calls made after \<open>Drm_Initialize\<close>; \<open>dr\<close> is the answer of
  \<open>Drm_SecureTime_GetValue\<close>. \<open>InitSecureClock\<close> is run (its first call,
  \<open>Drm_SecureTime_GenerateChallenge\<close>, is made) exactly when \<open>dr\<close> is
  \<open>DRM_E_SECURETIME_CLOCK_NOT_SET\<close> or \<open>DRM_E_TEE_PROVISIONING_REQUIRED\<close>;
  \<open>Drm_AntiRollBackClock_Init\<close> is called exactly when \<open>dr\<close> is
  \<open>DRM_E_CLK_NOT_SUPPORTED\<close>, and only with the seed built from this run's reading of
  \<open>gettimeofday\<close>: year, month, day of week, day, hour, minute and second of \<open>gmtime\<close>
  at \<open>tv_sec\<close> (year plus 1900, month plus 1) and \<open>tv_usec / 1000\<close> milliseconds, each
  narrowed to 16 bits; so when the query succeeds neither is run. In the bootstrap
  branch the whole run of \<open>InitSecureClock\<close> from the state after the query is part of
  the run: a run that does not return is one in which \<open>InitSecureClock\<close> does not
  return; a return code other than 0 ends \<open>CreateSystemExt\<close> with \<open>CDMi_S_FALSE\<close> and
  a released context; with 0 the initialisation goes on with the licence store, and
  then, the challenge being generated, the bootstrap has posted the challenge and
  handed the response to \<open>Drm_SecureTime_ProcessResponse\<close>.
\<close>

theorem C7_clock_strategy:
  fixes e s
  defines "s1 \<equiv> enter_Drm_Initialize e s"
  defines "dr \<equiv> Drm_SecureTime_GetValue e (calls s1 @ [Call_Drm_SecureTime_GetValue])"
  defines "tv \<equiv> gettimeofday e (calls s1 @ [Call_Drm_SecureTime_GetValue, Call_gettimeofday])"
  defines "gen \<equiv> Drm_SecureTime_GenerateChallenge e
                    (calls s1 @ [Call_Drm_SecureTime_GetValue,
                                 Call_Drm_SecureTime_GenerateChallenge])"
  assumes init: "\<not> DRM_FAILED (Drm_Initialize e (calls s1))"
  shows "case CreateSystemExt e s of
           None \<Rightarrow>
             (dr = DRM_E_SECURETIME_CLOCK_NOT_SET \<or> dr = DRM_E_TEE_PROVISIONING_REQUIRED)
             \<and> InitSecureClock e (call s1 Call_Drm_SecureTime_GetValue) = None
         | Some (cr, s') \<Rightarrow>
             (Call_Drm_SecureTime_GenerateChallenge \<in> set (later_calls s1 s')
                \<longleftrightarrow> dr = DRM_E_SECURETIME_CLOCK_NOT_SET \<or> dr = DRM_E_TEE_PROVISIONING_REQUIRED)
             \<and> ((\<exists>t. Call_Drm_AntiRollBackClock_Init t \<in> set (later_calls s1 s'))
                  \<longleftrightarrow> dr = DRM_E_CLK_NOT_SUPPORTED)
             \<and> (\<forall>t. Call_Drm_AntiRollBackClock_Init t \<in> set (later_calls s1 s')
                  \<longrightarrow> t = \<lparr> wYear = word_of_int (tm_year (gmtime e (fst tv)) + 1900),
                        wMonth = word_of_int (tm_mon (gmtime e (fst tv)) + 1),
                        wDayOfWeek = word_of_int (tm_wday (gmtime e (fst tv))),
                        wDay = word_of_int (tm_mday (gmtime e (fst tv))),
                        wHour = word_of_int (tm_hour (gmtime e (fst tv))),
                        wMinute = word_of_int (tm_min (gmtime e (fst tv))),
                        wSecond = word_of_int (tm_sec (gmtime e (fst tv))),
                        wMilliseconds = word_of_int (snd tv sdiv 1000) \<rparr>)
             \<and> (dr = DRM_E_SECURETIME_CLOCK_NOT_SET \<or> dr = DRM_E_TEE_PROVISIONING_REQUIRED \<longrightarrow>
                  (\<exists>rc s2.
                     InitSecureClock e (call s1 Call_Drm_SecureTime_GetValue) = Some (rc, s2)
                     \<and> (\<exists>evs. calls s' = calls s2 @ evs \<and> (\<forall>ev\<in>set evs. \<not> is_clock_call ev))
                     \<and> (rc \<noteq> 0 \<longrightarrow> cr = CDMi_S_FALSE \<and> s' = s2\<lparr>m_poAppContext := None\<rparr>)
                     \<and> (rc = 0 \<longrightarrow> (cr, s') = resize_license_store e s2)
                     \<and> (rc = 0 \<and> \<not> DRM_FAILED (fst gen) \<longrightarrow>
                          (\<exists>tr url.
                             calls s2 = calls s1 @ Call_Drm_SecureTime_GetValue
                               # Call_Drm_SecureTime_GenerateChallenge # tr
                               @ [Call_NEXUS_Memory_Allocate MAX_TIME_CHALLENGE_RESPONSE_LENGTH,
                                  Call_SecureTimeChallengePost url (snd gen),
                                  Call_Drm_SecureTime_ProcessResponse
                                    (snd (PRDY_HTTP_Client_SecureTimeChallengePost e
                                       (calls s1 @ Call_Drm_SecureTime_GetValue
                                          # Call_Drm_SecureTime_GenerateChallenge # tr
                                          @ [Call_NEXUS_Memory_Allocate
                                               MAX_TIME_CHALLENGE_RESPONSE_LENGTH,
                                             Call_SecureTimeChallengePost url (snd gen)])))]))))"
proof (cases "CreateSystemExt e s")
  case None
  then show ?thesis
    using init
    by (auto simp: CreateSystemExt_def setup_clock_def Let_def s1_def dr_def call_def
        split: if_splits option.splits prod.splits)
next
  case (Some r)
  obtain cr s' where r: "r = (cr, s')" by (cases r)
  let ?q = "call s1 Call_Drm_SecureTime_GetValue"
  let ?st = "system_time_of (gmtime e (fst tv)) (snd tv)"
  have clock: "setup_clock e s1 = Some (cr, s')"
    using Some r init by (simp add: CreateSystemExt_def Let_def s1_def)
  have dr: "Drm_SecureTime_GetValue e (calls ?q) = dr"
    by (simp add: dr_def call_def)
  have tv: "gettimeofday e (calls (call ?q Call_gettimeofday)) = tv"
    by (simp add: tv_def call_def)
  have gen: "Drm_SecureTime_GenerateChallenge e
               (calls ?q @ [Call_Drm_SecureTime_GenerateChallenge]) = (fst gen, snd gen)"
    by (simp add: gen_def call_def)
  have bootstrap: "\<exists>rc s2.
         InitSecureClock e ?q = Some (rc, s2)
         \<and> (\<exists>evs. calls s' = calls s2 @ evs \<and> (\<forall>ev\<in>set evs. \<not> is_clock_call ev))
         \<and> (rc \<noteq> 0 \<longrightarrow> cr = CDMi_S_FALSE \<and> s' = s2\<lparr>m_poAppContext := None\<rparr>)
         \<and> (rc = 0 \<longrightarrow> (cr, s') = resize_license_store e s2)
         \<and> (\<exists>evs. calls s2 = calls ?q @ Call_Drm_SecureTime_GenerateChallenge # evs
                \<and> (\<forall>ev\<in>set evs. \<not> is_clock_call ev))
         \<and> (rc = 0 \<and> \<not> DRM_FAILED (fst gen) \<longrightarrow>
              (\<exists>tr url.
                 calls s2 = calls ?q @ Call_Drm_SecureTime_GenerateChallenge # tr
                   @ [Call_NEXUS_Memory_Allocate MAX_TIME_CHALLENGE_RESPONSE_LENGTH,
                      Call_SecureTimeChallengePost url (snd gen),
                      Call_Drm_SecureTime_ProcessResponse
                        (snd (PRDY_HTTP_Client_SecureTimeChallengePost e
                           (calls ?q @ Call_Drm_SecureTime_GenerateChallenge # tr
                              @ [Call_NEXUS_Memory_Allocate MAX_TIME_CHALLENGE_RESPONSE_LENGTH,
                                 Call_SecureTimeChallengePost url (snd gen)])))]))"
    if boot: "dr = DRM_E_SECURETIME_CLOCK_NOT_SET \<or> dr = DRM_E_TEE_PROVISIONING_REQUIRED"
  proof -
    from boot have failed: "DRM_FAILED dr" by auto
    from clock dr boot obtain rc s2 where
      isc: "InitSecureClock e ?q = Some (rc, s2)" and
      fin: "if rc \<noteq> 0 then (cr, s') = ErrorExit dr s2
            else (cr, s') = resize_license_store e s2"
      by (auto simp: setup_clock_def Let_def split: option.splits if_splits)
    have after: "\<exists>evs. calls s' = calls s2 @ evs \<and> (\<forall>ev\<in>set evs. \<not> is_clock_call ev)"
    proof (cases "rc = 0")
      case True
      with fin resize_license_store_calls [of e s2 cr s'] show ?thesis by simp
    next
      case False
      with fin ErrorExit_calls [of dr s2 cr s'] have "calls s' = calls s2 @ []" by simp
      then show ?thesis by fastforce
    qed
    have stop: "cr = CDMi_S_FALSE \<and> s' = s2\<lparr>m_poAppContext := None\<rparr>" if "rc \<noteq> 0"
      using that fin failed by (simp add: ErrorExit_def)
    have go_on: "(cr, s') = resize_license_store e s2" if "rc = 0"
      using that fin by simp
    have posted: "\<exists>tr url.
                 calls s2 = calls ?q @ Call_Drm_SecureTime_GenerateChallenge # tr
                   @ [Call_NEXUS_Memory_Allocate MAX_TIME_CHALLENGE_RESPONSE_LENGTH,
                      Call_SecureTimeChallengePost url (snd gen),
                      Call_Drm_SecureTime_ProcessResponse
                        (snd (PRDY_HTTP_Client_SecureTimeChallengePost e
                           (calls ?q @ Call_Drm_SecureTime_GenerateChallenge # tr
                              @ [Call_NEXUS_Memory_Allocate MAX_TIME_CHALLENGE_RESPONSE_LENGTH,
                                 Call_SecureTimeChallengePost url (snd gen)])))]"
      if "rc = 0" "\<not> DRM_FAILED (fst gen)"
      using InitSecureClock_zero [OF _ gen that(2)] isc that(1) by simp
    from isc after stop go_on InitSecureClock_calls [OF isc] posted show ?thesis by blast
  qed
  consider
      (boot) evs where
        "dr = DRM_E_SECURETIME_CLOCK_NOT_SET \<or> dr = DRM_E_TEE_PROVISIONING_REQUIRED"
        "calls s' = calls s1 @ Call_Drm_SecureTime_GetValue
                      # Call_Drm_SecureTime_GenerateChallenge # evs"
        "\<forall>ev\<in>set evs. \<not> is_clock_call ev"
    | (anti) evs where "dr = DRM_E_CLK_NOT_SUPPORTED"
        "calls s' = calls s1 @ Call_Drm_SecureTime_GetValue # Call_gettimeofday
                      # Call_Drm_AntiRollBackClock_Init ?st # evs"
        "\<forall>ev\<in>set evs. \<not> is_clock_call ev"
    | (none) evs where
        "dr \<noteq> DRM_E_SECURETIME_CLOCK_NOT_SET" "dr \<noteq> DRM_E_TEE_PROVISIONING_REQUIRED"
        "dr \<noteq> DRM_E_CLK_NOT_SUPPORTED"
        "calls s' = calls s1 @ Call_Drm_SecureTime_GetValue # evs"
        "\<forall>ev\<in>set evs. \<not> is_clock_call ev"
  proof (cases "dr = DRM_E_SECURETIME_CLOCK_NOT_SET \<or> dr = DRM_E_TEE_PROVISIONING_REQUIRED")
    case True
    from bootstrap [OF True] obtain s2 :: PlayReady and evs evs' where
      a: "calls s2 = calls ?q @ Call_Drm_SecureTime_GenerateChallenge # evs"
         "\<forall>ev\<in>set evs. \<not> is_clock_call ev" and
      b: "calls s' = calls s2 @ evs'" "\<forall>ev\<in>set evs'. \<not> is_clock_call ev"
      by (elim exE conjE) blast
    from a b have c: "calls s' = calls s1 @ Call_Drm_SecureTime_GetValue
                      # Call_Drm_SecureTime_GenerateChallenge # (evs @ evs')"
      "\<forall>ev\<in>set (evs @ evs'). \<not> is_clock_call ev"
      by (auto simp: call_def)
    from True c show ?thesis by (rule boot)
  next
    case nb: False
    show ?thesis
    proof (cases "dr = DRM_E_CLK_NOT_SUPPORTED")
      case True
      let ?s3 = "call (call ?q Call_gettimeofday) (Call_Drm_AntiRollBackClock_Init ?st)"
      from clock dr tv True have
        fin: "(cr, s') = ErrorExit dr ?s3 \<or> (cr, s') = resize_license_store e ?s3"
        by (auto simp: setup_clock_def Let_def split: if_splits)
      then obtain evs' where
        b: "calls s' = calls ?s3 @ evs'" "\<forall>ev\<in>set evs'. \<not> is_clock_call ev"
        using ErrorExit_calls [of dr ?s3 cr s'] resize_license_store_calls [of e ?s3 cr s']
        by (metis append_Nil2 empty_iff list.set(1))
      then have c: "calls s' = calls s1 @ Call_Drm_SecureTime_GetValue # Call_gettimeofday
                      # Call_Drm_AntiRollBackClock_Init ?st # evs'"
        by (simp add: call_def)
      from True c b(2) show ?thesis by (rule anti)
    next
      case False
      from clock dr nb False have
        fin: "(cr, s') = ErrorExit dr ?q \<or> (cr, s') = resize_license_store e ?q"
        by (auto simp: setup_clock_def Let_def split: if_splits)
      then obtain evs' where
        b: "calls s' = calls ?q @ evs'" "\<forall>ev\<in>set evs'. \<not> is_clock_call ev"
        using ErrorExit_calls [of dr ?q cr s'] resize_license_store_calls [of e ?q cr s']
        by (metis append_Nil2 empty_iff list.set(1))
      then have c: "calls s' = calls s1 @ Call_Drm_SecureTime_GetValue # evs'"
        by (simp add: call_def)
      from nb have "dr \<noteq> DRM_E_SECURETIME_CLOCK_NOT_SET"
        "dr \<noteq> DRM_E_TEE_PROVISIONING_REQUIRED" by simp_all
      from this False c b(2) show ?thesis by (rule none)
    qed
  qed
  then have strategy:
    "(Call_Drm_SecureTime_GenerateChallenge \<in> set (later_calls s1 s')
        \<longleftrightarrow> dr = DRM_E_SECURETIME_CLOCK_NOT_SET \<or> dr = DRM_E_TEE_PROVISIONING_REQUIRED)
     \<and> ((\<exists>t. Call_Drm_AntiRollBackClock_Init t \<in> set (later_calls s1 s'))
          \<longleftrightarrow> dr = DRM_E_CLK_NOT_SUPPORTED)
     \<and> (\<forall>t. Call_Drm_AntiRollBackClock_Init t \<in> set (later_calls s1 s')
          \<longrightarrow> t = ?st)"
  proof cases
    case boot
    then show ?thesis by (auto simp: later_calls_def)
  next
    case anti
    then show ?thesis by (auto simp: later_calls_def)
  next
    case none
    then show ?thesis by (auto simp: later_calls_def)
  qed
  have whole_run: "\<exists>rc s2.
         InitSecureClock e ?q = Some (rc, s2)
         \<and> (\<exists>evs. calls s' = calls s2 @ evs \<and> (\<forall>ev\<in>set evs. \<not> is_clock_call ev))
         \<and> (rc \<noteq> 0 \<longrightarrow> cr = CDMi_S_FALSE \<and> s' = s2\<lparr>m_poAppContext := None\<rparr>)
         \<and> (rc = 0 \<longrightarrow> (cr, s') = resize_license_store e s2)
         \<and> (rc = 0 \<and> \<not> DRM_FAILED (fst gen) \<longrightarrow>
              (\<exists>tr url.
                 calls s2 = calls s1 @ Call_Drm_SecureTime_GetValue
                   # Call_Drm_SecureTime_GenerateChallenge # tr
                   @ [Call_NEXUS_Memory_Allocate MAX_TIME_CHALLENGE_RESPONSE_LENGTH,
                      Call_SecureTimeChallengePost url (snd gen),
                      Call_Drm_SecureTime_ProcessResponse
                        (snd (PRDY_HTTP_Client_SecureTimeChallengePost e
                           (calls s1 @ Call_Drm_SecureTime_GetValue
                              # Call_Drm_SecureTime_GenerateChallenge # tr
                              @ [Call_NEXUS_Memory_Allocate
                                   MAX_TIME_CHALLENGE_RESPONSE_LENGTH,
                                 Call_SecureTimeChallengePost url (snd gen)])))]))"
    if "dr = DRM_E_SECURETIME_CLOCK_NOT_SET \<or> dr = DRM_E_TEE_PROVISIONING_REQUIRED"
    using bootstrap [OF that] by (simp add: call_def) blast
  from strategy whole_run Some r show ?thesis
    by (simp add: system_time_of_def)
qed

lemma CreateSystemExt_chain1:
  "\<exists>cr s'. CreateSystemExt (redirect_chain 1) platform_up = Some (cr, s')"
  by (simp add: run_defs env_defs redirect_loop.simps hop_count_def)

lemma InitSecureClock_chain1:
  "\<exists>s2. InitSecureClock (redirect_chain 1)
          (call (enter_Drm_Initialize (redirect_chain 1) platform_up)
             Call_Drm_SecureTime_GetValue) = Some (0, s2)"
  by (simp add: run_defs env_defs redirect_loop.simps hop_count_def)

lemma InitSecureClock_failing_hop:
  "\<exists>s2. InitSecureClock failing_hop_env
          (call (enter_Drm_Initialize failing_hop_env platform_up)
             Call_Drm_SecureTime_GetValue) = Some (7, s2)"
  by (simp add: run_defs env_defs redirect_loop.simps hop_count_def)

theorem C7_clock_strategy_witness:
  "\<not> DRM_FAILED (Drm_Initialize no_secure_clock_env
                    (calls (enter_Drm_Initialize no_secure_clock_env platform_up)))
   \<and> (\<exists>cr s'. CreateSystemExt no_secure_clock_env platform_up = Some (cr, s')
        \<and> Call_Drm_SecureTime_GenerateChallenge
             \<notin> set (later_calls (enter_Drm_Initialize no_secure_clock_env platform_up) s')
        \<and> (\<forall>t. Call_Drm_AntiRollBackClock_Init t
                  \<in> set (later_calls (enter_Drm_Initialize no_secure_clock_env platform_up) s')
             \<longleftrightarrow> t = \<lparr> wYear = 1970, wMonth = 1, wDayOfWeek = 4, wDay = 1, wHour = 1,
                       wMinute = 1, wSecond = 1, wMilliseconds = 5 \<rparr>))
   \<and> \<not> DRM_FAILED (Drm_Initialize (redirect_chain 1)
                      (calls (enter_Drm_Initialize (redirect_chain 1) platform_up)))
   \<and> (\<exists>cr s'. CreateSystemExt (redirect_chain 1) platform_up = Some (cr, s')
        \<and> Call_Drm_SecureTime_GenerateChallenge
             \<in> set (later_calls (enter_Drm_Initialize (redirect_chain 1) platform_up) s')
        \<and> (\<forall>t. Call_Drm_AntiRollBackClock_Init t
             \<notin> set (later_calls (enter_Drm_Initialize (redirect_chain 1) platform_up) s'))
        \<and> (\<exists>url. Call_SecureTimeChallengePost url [] \<in> set (calls s'))
        \<and> Call_Drm_SecureTime_ProcessResponse [] \<in> set (calls s'))
   \<and> \<not> DRM_FAILED (Drm_Initialize failing_hop_env
                      (calls (enter_Drm_Initialize failing_hop_env platform_up)))
   \<and> (\<exists>s'. CreateSystemExt failing_hop_env platform_up = Some (CDMi_S_FALSE, s')
        \<and> m_poAppContext s' = None
        \<and> Call_Drm_SecureTime_GenerateChallenge
             \<in> set (later_calls (enter_Drm_Initialize failing_hop_env platform_up) s'))
   \<and> \<not> DRM_FAILED (Drm_Initialize nominal_env
                      (calls (enter_Drm_Initialize nominal_env platform_up)))
   \<and> (\<exists>cr s'. CreateSystemExt nominal_env platform_up = Some (cr, s')
        \<and> Call_Drm_SecureTime_GenerateChallenge
             \<notin> set (later_calls (enter_Drm_Initialize nominal_env platform_up) s')
        \<and> (\<forall>t. Call_Drm_AntiRollBackClock_Init t
             \<notin> set (later_calls (enter_Drm_Initialize nominal_env platform_up) s')))"
proof -
  have init_a: "\<not> DRM_FAILED (Drm_Initialize no_secure_clock_env
                    (calls (enter_Drm_Initialize no_secure_clock_env platform_up)))"
    by (simp add: env_defs)
  have dr_a: "Drm_SecureTime_GetValue no_secure_clock_env tr = DRM_E_CLK_NOT_SUPPORTED" for tr
    by (simp add: env_defs)
  have tv_a: "gettimeofday no_secure_clock_env tr = (3661, 5000)" for tr
    by (simp add: env_defs)
  have tm_a: "gmtime no_secure_clock_env 3661
              = \<lparr> tm_year = 70, tm_mon = 0, tm_wday = 4, tm_mday = 1, tm_hour = 1,
                  tm_min = 1, tm_sec = 1 \<rparr>"
    by (simp add: env_defs)
  have ms: "(5000 :: int) sdiv 1000 = 5"
    by (simp add: signed_divide_int_def)
  have a: "\<exists>cr s'. CreateSystemExt no_secure_clock_env platform_up = Some (cr, s')
        \<and> Call_Drm_SecureTime_GenerateChallenge
             \<notin> set (later_calls (enter_Drm_Initialize no_secure_clock_env platform_up) s')
        \<and> (\<forall>t. Call_Drm_AntiRollBackClock_Init t
                  \<in> set (later_calls (enter_Drm_Initialize no_secure_clock_env platform_up) s')
             \<longleftrightarrow> t = \<lparr> wYear = 1970, wMonth = 1, wDayOfWeek = 4, wDay = 1, wHour = 1,
                       wMinute = 1, wSecond = 1, wMilliseconds = 5 \<rparr>)"
    using C7_clock_strategy [OF init_a]
    by (auto simp: dr_a tv_a tm_a ms split: option.splits)
  have init_b: "\<not> DRM_FAILED (Drm_Initialize (redirect_chain 1)
                    (calls (enter_Drm_Initialize (redirect_chain 1) platform_up)))"
    by (simp add: env_defs)
  have dr_b: "Drm_SecureTime_GetValue (redirect_chain n) tr = DRM_E_SECURETIME_CLOCK_NOT_SET"
    for n tr
    by (simp add: env_defs)
  have gen_b: "Drm_SecureTime_GenerateChallenge (redirect_chain n) tr = (DRM_SUCCESS, [])"
    for n tr
    by (simp add: env_defs)
  have post_b: "PRDY_HTTP_Client_SecureTimeChallengePost (redirect_chain n) tr = (0, [])"
    for n tr
    by (simp add: env_defs)
  from CreateSystemExt_chain1 obtain cr_b s_b where
    run_b: "CreateSystemExt (redirect_chain 1) platform_up = Some (cr_b, s_b)" by blast
  from InitSecureClock_chain1 obtain s2_b where
    isc_b: "InitSecureClock (redirect_chain 1)
              (call (enter_Drm_Initialize (redirect_chain 1) platform_up)
                 Call_Drm_SecureTime_GetValue) = Some (0, s2_b)" by blast
  have clock_b:
    "Call_Drm_SecureTime_GenerateChallenge
       \<in> set (later_calls (enter_Drm_Initialize (redirect_chain 1) platform_up) s_b)
     \<and> (\<forall>t. Call_Drm_AntiRollBackClock_Init t
          \<notin> set (later_calls (enter_Drm_Initialize (redirect_chain 1) platform_up) s_b))
     \<and> (\<exists>evs tr url.
          calls s_b = (calls (enter_Drm_Initialize (redirect_chain 1) platform_up)
             @ Call_Drm_SecureTime_GetValue # Call_Drm_SecureTime_GenerateChallenge # tr
             @ [Call_NEXUS_Memory_Allocate MAX_TIME_CHALLENGE_RESPONSE_LENGTH,
                Call_SecureTimeChallengePost url [],
                Call_Drm_SecureTime_ProcessResponse []]) @ evs)"
    using C7_clock_strategy [OF init_b] run_b isc_b
    by (auto simp: dr_b gen_b post_b) blast
  then have "(\<exists>url. Call_SecureTimeChallengePost url [] \<in> set (calls s_b))
             \<and> Call_Drm_SecureTime_ProcessResponse [] \<in> set (calls s_b)"
    by auto
  with run_b clock_b
  have b: "\<exists>cr s'. CreateSystemExt (redirect_chain 1) platform_up = Some (cr, s')
        \<and> Call_Drm_SecureTime_GenerateChallenge
             \<in> set (later_calls (enter_Drm_Initialize (redirect_chain 1) platform_up) s')
        \<and> (\<forall>t. Call_Drm_AntiRollBackClock_Init t
             \<notin> set (later_calls (enter_Drm_Initialize (redirect_chain 1) platform_up) s'))
        \<and> (\<exists>url. Call_SecureTimeChallengePost url [] \<in> set (calls s'))
        \<and> Call_Drm_SecureTime_ProcessResponse [] \<in> set (calls s')"
    by blast
  have init_d: "\<not> DRM_FAILED (Drm_Initialize failing_hop_env
                    (calls (enter_Drm_Initialize failing_hop_env platform_up)))"
    by (simp add: env_defs)
  have dr_d: "Drm_SecureTime_GetValue failing_hop_env tr = DRM_E_SECURETIME_CLOCK_NOT_SET"
    for tr
    by (simp add: env_defs)
  from InitSecureClock_failing_hop obtain s2_d where
    isc_d: "InitSecureClock failing_hop_env
              (call (enter_Drm_Initialize failing_hop_env platform_up)
                 Call_Drm_SecureTime_GetValue) = Some (7, s2_d)" by blast
  have d: "\<exists>s'. CreateSystemExt failing_hop_env platform_up = Some (CDMi_S_FALSE, s')
        \<and> m_poAppContext s' = None
        \<and> Call_Drm_SecureTime_GenerateChallenge
             \<in> set (later_calls (enter_Drm_Initialize failing_hop_env platform_up) s')"
    using C7_clock_strategy [OF init_d] isc_d
    by (auto simp: dr_d split: option.splits)
  have init_c: "\<not> DRM_FAILED (Drm_Initialize nominal_env
                    (calls (enter_Drm_Initialize nominal_env platform_up)))"
    by (simp add: env_defs)
  have dr_c: "Drm_SecureTime_GetValue nominal_env tr = DRM_SUCCESS" for tr
    by (simp add: env_defs)
  have c: "\<exists>cr s'. CreateSystemExt nominal_env platform_up = Some (cr, s')
        \<and> Call_Drm_SecureTime_GenerateChallenge
             \<notin> set (later_calls (enter_Drm_Initialize nominal_env platform_up) s')
        \<and> (\<forall>t. Call_Drm_AntiRollBackClock_Init t
             \<notin> set (later_calls (enter_Drm_Initialize nominal_env platform_up) s'))"
    using C7_clock_strategy [OF init_c]
    by (auto simp: dr_c split: option.splits)
  from init_a a init_b b init_d d init_c c show ?thesis by blast
qed
section \<open>Session creation\<close>






end
